(* ===== verification/Prelude.thy ===== *)
theory Prelude
  imports Main "HOL-Library.Sublist"
begin

text \<open>
  Shared vocabulary of the development: the named collections that the component
  theories feed, the evaluation rules that let the simplifier run the model on
  concrete resume texts, and generic facts on lists that several components use.
  The program is Python; its \<open>str\<close> values are modelled as HOL \<open>string\<close>
  (a list of 8-bit \<open>char\<close>s; \<open>PyStr\<close> says which alphabet that covers).
\<close>

named_theorems eval_simps
  "rules that let simp evaluate the model on closed inputs"
named_theorems extract_simps
  "one-step equations of the extractors' line loops"

type_synonym section_names = "string list"

text \<open>
  Several extractors accumulate a current record over the lines of a section and
  append it to the result at a blank line and at the end, but only when it is not
  empty (Python's \<open>if current_edu: education.append(current_edu)\<close>). \<open>flush\<close>
  is that guarded append.
\<close>

definition flush :: "('a \<Rightarrow> bool) \<Rightarrow> 'a list \<Rightarrow> 'a \<Rightarrow> 'a list" where
  "flush is_empty acc cur = (if is_empty cur then acc else acc @ [cur])"

text \<open>
  First-writer-wins: a field keeps its value once set (\<open>if "degree" not in
  current_edu: current_edu["degree"] = line\<close>).
\<close>

definition first_writer :: "'a option \<Rightarrow> 'a option \<Rightarrow> 'a option" where
  "first_writer old new = (case old of None \<Rightarrow> new | Some v \<Rightarrow> Some v)"

text \<open>
  \<open>re.split\<close> with a one-character class, and the cutting of a list of lines into
  blank-line separated blocks: every element satisfying \<open>B\<close> cuts, so adjacent cuts
  give empty pieces and the result is never empty.
\<close>

fun split_when :: "('a \<Rightarrow> bool) \<Rightarrow> 'a list \<Rightarrow> 'a list list" where
  "split_when B [] = [[]]"
| "split_when B (x # xs) =
     (let r = split_when B xs in if B x then [] # r else (x # hd r) # tl r)"

text \<open>
  One iteration of the line loop shared by \<open>_extract_education\<close>,
  \<open>_extract_experience\<close> and \<open>_extract_projects\<close> (resume_processor.py lines
  84--90, 122--128, 224--230), on an already stripped line: a blank line appends the
  current record when it is not empty and starts a new one; any other line is handed
  to the extractor's line handler \<open>f\<close>.
\<close>

definition para_step ::
  "('r \<Rightarrow> bool) \<Rightarrow> 'r \<Rightarrow> ('r \<Rightarrow> string \<Rightarrow> 'r) \<Rightarrow> 'r list \<times> 'r \<Rightarrow> string \<Rightarrow> 'r list \<times> 'r" where
  "para_step is_empty e0 f st line =
     (case st of (acc, cur) \<Rightarrow>
        if line = [] then (if is_empty cur then (acc, cur) else (acc @ [cur], e0))
        else (acc, f cur line))"

text \<open>The whole loop and the final \<open>if current: append(current)\<close>.\<close>

definition para_loop ::
  "('r \<Rightarrow> bool) \<Rightarrow> 'r \<Rightarrow> ('r \<Rightarrow> string \<Rightarrow> 'r) \<Rightarrow> string list \<Rightarrow> 'r list" where
  "para_loop is_empty e0 f lines =
     (case foldl (para_step is_empty e0 f) ([], e0) lines of
        (acc, cur) \<Rightarrow> flush is_empty acc cur)"

declare flush_def [eval_simps] first_writer_def [eval_simps] para_step_def [eval_simps]
  para_loop_def [eval_simps]

subsection \<open>Evaluation\<close>

text \<open>
  \<open>char_of\<close> on a numeral does not reduce by \<open>simp\<close> alone; this equation turns it
  into a literal, so that a character computed by case mapping compares with a
  literal character.
\<close>

lemma char_of_nat_eval [eval_simps]:
  "char_of (n::nat) = Char (odd n) (odd (n div 2)) (odd (n div 4)) (odd (n div 8))
     (odd (n div 16)) (odd (n div 32)) (odd (n div 64)) (odd (n div 128))"
  by (simp add: char_of_def bit_iff_odd)

subsection \<open>The guarded append\<close>

lemma flush_set [simp]:
  "set (flush e acc cur) = (if e cur then set acc else insert cur (set acc))"
  by (auto simp: flush_def)

lemma flush_prefix [simp]: "prefix acc (flush e acc cur)"
  by (simp add: flush_def)

lemma flush_length [simp]:
  "length (flush e acc cur) = (if e cur then length acc else Suc (length acc))"
  by (simp add: flush_def)

lemma flush_all [simp]:
  "list_all P (flush e acc cur) \<longleftrightarrow> list_all P acc \<and> (\<not> e cur \<longrightarrow> P cur)"
  by (simp add: flush_def)


lemma first_writer_simps [simp]:
  "first_writer None b = b" "first_writer (Some a) b = Some a"
  by (simp_all add: first_writer_def)

lemma list_all_take [intro]: "list_all P xs \<Longrightarrow> list_all P (take n xs)"
  by (auto simp: list_all_iff dest: in_set_takeD)

lemma find_pred: "pred_option P (find P xs)"
  by (induction xs) auto

subsection \<open>Blocks\<close>

lemma split_when_not_Nil [simp]: "split_when B xs \<noteq> []"
  by (induction xs) (auto simp: Let_def)

lemma split_when_pieces: "list_all (list_all (\<lambda>x. \<not> B x)) (split_when B xs)"
proof (induction xs)
  case Nil
  then show ?case by simp
next
  case (Cons x xs)
  then show ?case
    by (cases "split_when B xs") (auto simp: Let_def)
qed

lemma concat_split_when: "concat (split_when B xs) = filter (\<lambda>x. \<not> B x) xs"
proof (induction xs)
  case Nil
  then show ?case by simp
next
  case (Cons x xs)
  then show ?case
    by (cases "split_when B xs") (auto simp: Let_def)
qed

text \<open>
  The line loop computes, in order, the records of the blank-line separated blocks,
  each parsed from the empty record by the line handler, and keeps the non-empty ones.
  The induction starts from any accumulator and any current record: the first block
  continues the current record.
\<close>

lemma para_fold_blocks:
  assumes e0_unique: "\<And>c. is_empty c \<Longrightarrow> c = e0"
  shows "(case foldl (para_step is_empty e0 f) (acc, cur) lines of (a, c) \<Rightarrow> flush is_empty a c)
     = acc @ filter (\<lambda>r. \<not> is_empty r)
         (foldl f cur (hd (split_when (\<lambda>l. l = []) lines))
          # map (foldl f e0) (tl (split_when (\<lambda>l. l = []) lines)))"
proof (induction lines arbitrary: acc cur)
  case Nil
  then show ?case by (simp add: flush_def)
next
  case (Cons l ls)
  obtain b bs where bs: "split_when (\<lambda>l. l = []) ls = b # bs"
    by (cases "split_when (\<lambda>l. l = []) ls") auto
  show ?case
  proof (cases "l = []")
    case True
    show ?thesis
    proof (cases "is_empty cur")
      case True
      with e0_unique have "cur = e0" by blast
      with True \<open>l = []\<close> Cons.IH[of acc e0] bs show ?thesis
        by (simp add: para_step_def)
    next
      case False
      with \<open>l = []\<close> Cons.IH[of "acc @ [cur]" e0] bs show ?thesis
        by (simp add: para_step_def)
    qed
  next
    case False
    with Cons.IH[of acc "f cur l"] bs show ?thesis
      by (simp add: para_step_def)
  qed
qed

lemma para_loop_blocks:
  assumes "\<And>c. is_empty c \<Longrightarrow> c = e0"
  shows "para_loop is_empty e0 f lines =
           filter (\<lambda>r. \<not> is_empty r) (map (foldl f e0) (split_when (\<lambda>l. l = []) lines))"
proof -
  obtain b bs where bs: "split_when (\<lambda>l. l = []) lines = b # bs"
    by (cases "split_when (\<lambda>l. l = []) lines") auto
  show ?thesis
    using para_fold_blocks[OF assms, where f = f and acc = "[]" and cur = e0 and lines = lines] bs
    by (simp add: para_loop_def)
qed

end
