(* ===== verification/PyStr.thy ===== *)
theory PyStr
  imports Prelude
begin

text \<open>
  The Python \<open>str\<close> operations the source uses (\<open>upper\<close>, \<open>lower\<close>,
  \<open>strip\<close>, \<open>startswith\<close>, \<open>in\<close>, \<open>find\<close>, \<open>split\<close>, \<open>join\<close>, \<open>count\<close>,
  \<open>re.split\<close> on a character class), each with the facts the extractors rely on.

  Alphabet. A Python \<open>str\<close> is a sequence of code points; a HOL \<open>char\<close> is one
  byte. The model reads one \<open>char\<close> as one code point of the resume text, for texts
  over ASCII plus the bullet U+2022, which the model writes as \<open>bullet\<close> (the byte
  0x95 that stands for it in code page 1252). On that alphabet the character classes
  below are exactly Python's: \<open>\d\<close> is \<open>is_digit\<close>, \<open>\w\<close> is \<open>is_word\<close>,
  \<open>\s\<close> and \<open>str.isspace\<close> are \<open>is_space\<close> (which includes the separators
  0x1C to 0x1F), \<open>[A-Z]\<close> is \<open>is_upper\<close>, and \<open>str.upper\<close>/\<open>str.lower\<close> and
  \<open>re.IGNORECASE\<close> change ASCII letters only. Non-ASCII letters, for which Python's
  case mapping and \<open>\w\<close> are Unicode-aware, are outside the model.
\<close>

definition is_digit :: "char \<Rightarrow> bool" where
  "is_digit c \<longleftrightarrow> (let n = (of_char c :: nat) in 48 \<le> n \<and> n \<le> 57)"

definition is_upper :: "char \<Rightarrow> bool" where
  "is_upper c \<longleftrightarrow> (let n = (of_char c :: nat) in 65 \<le> n \<and> n \<le> 90)"

definition is_lower :: "char \<Rightarrow> bool" where
  "is_lower c \<longleftrightarrow> (let n = (of_char c :: nat) in 97 \<le> n \<and> n \<le> 122)"

definition is_word :: "char \<Rightarrow> bool" where
  "is_word c \<longleftrightarrow> is_digit c \<or> is_upper c \<or> is_lower c \<or> c = CHR ''_''"

definition is_space :: "char \<Rightarrow> bool" where
  "is_space c \<longleftrightarrow> (let n = (of_char c :: nat) in (9 \<le> n \<and> n \<le> 13) \<or> (28 \<le> n \<and> n \<le> 32))"

definition bullet :: char where
  "bullet = CHR 0x95"

definition upper_char :: "char \<Rightarrow> char" where
  "upper_char c = (if is_lower c then char_of (of_char c - (32::nat)) else c)"

definition lower_char :: "char \<Rightarrow> char" where
  "lower_char c = (if is_upper c then char_of (of_char c + (32::nat)) else c)"

text \<open>\<open>s.upper()\<close>, \<open>s.lower()\<close>, \<open>s.strip()\<close>, \<open>s.startswith(p)\<close>.\<close>

definition str_upper :: "string \<Rightarrow> string" where
  "str_upper s = map upper_char s"

definition str_lower :: "string \<Rightarrow> string" where
  "str_lower s = map lower_char s"

definition str_strip :: "string \<Rightarrow> string" where
  "str_strip s = rev (dropWhile is_space (rev (dropWhile is_space s)))"

definition str_startswith :: "string \<Rightarrow> string \<Rightarrow> bool" where
  "str_startswith s p \<longleftrightarrow> take (length p) s = p"

text \<open>
  \<open>re.search\<close>: the leftmost position of \<open>s\<close>, from \<open>0\<close> to \<open>len(s)\<close>, at
  which a pattern matches; \<open>P\<close> decides whether the pattern matches a prefix of the
  string it is given. \<open>None\<close> is Python's \<open>None\<close> (no match).
\<close>

fun search_pos :: "(string \<Rightarrow> bool) \<Rightarrow> string \<Rightarrow> nat option" where
  "search_pos P [] = (if P [] then Some 0 else None)"
| "search_pos P (c # cs) = (if P (c # cs) then Some 0 else map_option Suc (search_pos P cs))"

text \<open>
  \<open>s.find(p)\<close>: the least index at which \<open>p\<close> occurs, \<open>None\<close> for Python's
  \<open>-1\<close>. The empty string occurs at 0.
\<close>

definition str_find :: "string \<Rightarrow> string \<Rightarrow> nat option" where
  "str_find s p = search_pos (\<lambda>x. str_startswith x p) s"

text \<open>
  A literal pattern searched with \<open>re.IGNORECASE\<close>: on the modelled alphabet two
  characters match when their lower-case forms are equal.
\<close>

definition ci_find :: "string \<Rightarrow> string \<Rightarrow> nat option" where
  "ci_find s p = str_find (str_lower s) (str_lower p)"

definition ci_contains :: "string \<Rightarrow> string \<Rightarrow> bool" where
  "ci_contains s p \<longleftrightarrow> ci_find s p \<noteq> None"

text \<open>
  \<open>re.search(r"(?i)(k1|k2|...)", s)\<close> for literal alternatives: it matches when
  one alternative occurs in \<open>s\<close>, ignoring case.
\<close>

definition ci_search_any :: "string list \<Rightarrow> string \<Rightarrow> bool" where
  "ci_search_any kws s \<longleftrightarrow> list_ex (ci_contains s) kws"

text \<open>\<open>p in s\<close>.\<close>

definition str_contains :: "string \<Rightarrow> string \<Rightarrow> bool" where
  "str_contains s p \<longleftrightarrow> str_find s p \<noteq> None"

text \<open>
  \<open>s.split(sep)\<close>: cut at the occurrences of \<open>sep\<close>, found left to right without
  overlap. Python raises \<open>ValueError\<close> on an empty separator; every call site of
  the source passes a non-empty literal, and the model returns \<open>[s]\<close> there.
\<close>

function str_split :: "string \<Rightarrow> string \<Rightarrow> string list" where
  "str_split s sep =
     (if sep = [] then [s]
      else (case str_find s sep of
              None \<Rightarrow> [s]
            | Some i \<Rightarrow> take i s # str_split (drop (i + length sep) s) sep))"
  by pat_completeness auto
termination
proof (relation "measure (\<lambda>(s, sep). length s)")
  show "wf (measure (\<lambda>(s, sep). length s))" by simp
next
  fix s sep :: string and i
  assume ne: "sep \<noteq> []" and found: "str_find s sep = Some i"
  have "\<forall>i. search_pos (\<lambda>x. str_startswith x sep) s = Some i \<longrightarrow> i + length sep \<le> length s"
    by (induction s) (auto simp: str_startswith_def dest: arg_cong[where f = length])
  with found[unfolded str_find_def] have "i + length sep \<le> length s" by blast
  moreover from ne have "0 < length sep" by simp
  ultimately have "length s - (i + length sep) < length s" by arith
  then show "((drop (i + length sep) s, sep), s, sep) \<in> measure (\<lambda>(s, sep). length s)"
    by simp
qed

text \<open>\<open>sep.join(xs)\<close>.\<close>

fun str_join :: "string \<Rightarrow> string list \<Rightarrow> string" where
  "str_join sep [] = []"
| "str_join sep [x] = x"
| "str_join sep (x # y # zs) = x @ sep @ str_join sep (y # zs)"

text \<open>
  \<open>s.count(p)\<close>: the number of non-overlapping occurrences, found left to right;
  for the empty \<open>p\<close> Python answers \<open>len(s) + 1\<close>.
\<close>

function str_count :: "string \<Rightarrow> string \<Rightarrow> nat" where
  "str_count s p =
     (if p = [] then Suc (length s)
      else (case str_find s p of
              None \<Rightarrow> 0
            | Some i \<Rightarrow> Suc (str_count (drop (i + length p) s) p)))"
  by pat_completeness auto
termination
proof (relation "measure (\<lambda>(s, p). length s)")
  show "wf (measure (\<lambda>(s, p). length s))" by simp
next
  fix s p :: string and i
  assume ne: "p \<noteq> []" and found: "str_find s p = Some i"
  have "\<forall>i. search_pos (\<lambda>x. str_startswith x p) s = Some i \<longrightarrow> i + length p \<le> length s"
    by (induction s) (auto simp: str_startswith_def dest: arg_cong[where f = length])
  with found[unfolded str_find_def] have "i + length p \<le> length s" by blast
  moreover from ne have "0 < length p" by simp
  ultimately have "length s - (i + length p) < length s" by arith
  then show "((drop (i + length p) s, p), s, p) \<in> measure (\<lambda>(s, p). length s)"
    by simp
qed

declare str_split.simps [simp del] str_count.simps [simp del]

declare is_digit_def [eval_simps] is_upper_def [eval_simps] is_lower_def [eval_simps]
  is_word_def [eval_simps] is_space_def [eval_simps] bullet_def [eval_simps]
  upper_char_def [eval_simps] lower_char_def [eval_simps] str_upper_def [eval_simps]
  str_lower_def [eval_simps] str_strip_def [eval_simps] str_startswith_def [eval_simps]
  str_find_def [eval_simps] ci_find_def [eval_simps] ci_contains_def [eval_simps]
  ci_search_any_def [eval_simps] str_contains_def [eval_simps] str_split.simps [eval_simps]
  str_count.simps [eval_simps]

subsection \<open>Character classes\<close>

lemmas char_class_defs = is_digit_def is_upper_def is_lower_def is_word_def is_space_def

lemma space_not_word [simp]: "is_space c \<Longrightarrow> \<not> is_word c"
  by (cases "c = CHR ''_''") (auto simp: char_class_defs Let_def)

lemma digit_word [simp]: "is_digit c \<Longrightarrow> is_word c"
  by (simp add: is_word_def)

lemma upper_word [simp]: "is_upper c \<Longrightarrow> is_word c"
  by (simp add: is_word_def)

lemma upper_not_space [simp]: "is_upper c \<Longrightarrow> \<not> is_space c"
  using space_not_word upper_word by blast

lemma newline_space [simp]: "is_space CHR ''\<newline>''"
  by (simp add: is_space_def)

lemma upper_char_upper: "is_upper (upper_char c) \<longleftrightarrow> is_upper c \<or> is_lower c"
  by (auto simp: upper_char_def char_class_defs Let_def)

lemma length_str_upper [simp]: "length (str_upper s) = length s"
  by (simp add: str_upper_def)

lemma length_str_lower [simp]: "length (str_lower s) = length s"
  by (simp add: str_lower_def)

lemma str_upper_take [simp]: "str_upper (take n s) = take n (str_upper s)"
  by (simp add: str_upper_def take_map)

lemma str_upper_drop [simp]: "str_upper (drop n s) = drop n (str_upper s)"
  by (simp add: str_upper_def drop_map)

lemma str_upper_append [simp]: "str_upper (xs @ ys) = str_upper xs @ str_upper ys"
  by (simp add: str_upper_def)

lemma str_lower_append [simp]: "str_lower (xs @ ys) = str_lower xs @ str_lower ys"
  by (simp add: str_lower_def)

subsection \<open>re.search, find and in\<close>

lemma search_pos_SomeD:
  "search_pos P s = Some k \<Longrightarrow> k \<le> length s \<and> P (drop k s)"
  by (induction s arbitrary: k) (auto split: if_splits)

lemma search_pos_least:
  "search_pos P s = Some k \<Longrightarrow> j < k \<Longrightarrow> \<not> P (drop j s)"
proof (induction s arbitrary: k j)
  case Nil
  then show ?case by (simp split: if_splits)
next
  case (Cons c cs)
  then show ?case by (cases j) (auto split: if_splits)
qed

lemma search_pos_None:
  "search_pos P s = None \<longleftrightarrow> (\<forall>j \<le> length s. \<not> P (drop j s))"
proof (induction s)
  case Nil
  then show ?case by simp
next
  case (Cons c cs)
  show ?case
  proof
    assume none: "search_pos P (c # cs) = None"
    show "\<forall>j \<le> length (c # cs). \<not> P (drop j (c # cs))"
    proof (intro allI impI)
      fix j assume "j \<le> length (c # cs)"
      with none Cons.IH show "\<not> P (drop j (c # cs))"
        by (cases j) (auto split: if_splits)
    qed
  next
    assume H: "\<forall>j \<le> length (c # cs). \<not> P (drop j (c # cs))"
    have "\<not> P (c # cs)" using H[rule_format, of 0] by simp
    moreover have "\<forall>j \<le> length cs. \<not> P (drop j cs)"
    proof (intro allI impI)
      fix j assume "j \<le> length cs"
      then show "\<not> P (drop j cs)" using H[rule_format, of "Suc j"] by simp
    qed
    ultimately show "search_pos P (c # cs) = None" using Cons.IH by simp
  qed
qed

lemma search_pos_Some_iff:
  "search_pos P s = Some k \<longleftrightarrow> k \<le> length s \<and> P (drop k s) \<and> (\<forall>j < k. \<not> P (drop j s))"
proof
  assume "search_pos P s = Some k"
  then show "k \<le> length s \<and> P (drop k s) \<and> (\<forall>j < k. \<not> P (drop j s))"
    using search_pos_SomeD search_pos_least by blast
next
  assume H: "k \<le> length s \<and> P (drop k s) \<and> (\<forall>j < k. \<not> P (drop j s))"
  then obtain k' where k': "search_pos P s = Some k'"
    using search_pos_None by (metis option.exhaust)
  with H have "\<not> k' < k" using search_pos_SomeD by blast
  moreover from k' H have "\<not> k < k'" using search_pos_least by blast
  ultimately show "search_pos P s = Some k" using k' by simp
qed

lemma str_startswith_iff_prefix: "str_startswith s p \<longleftrightarrow> prefix p s"
  by (auto simp: str_startswith_def prefix_def)
     (metis append_take_drop_id)

lemma str_find_bound: "str_find s p = Some i \<Longrightarrow> i + length p \<le> length s"
proof -
  assume "str_find s p = Some i"
  then have "i \<le> length s" and "take (length p) (drop i s) = p"
    using search_pos_SomeD by (fastforce simp: str_find_def str_startswith_def)+
  then have "length (take (length p) (drop i s)) = length p" by simp
  then have "length p \<le> length s - i" by (simp add: min_def split: if_splits)
  with \<open>i \<le> length s\<close> show ?thesis by linarith
qed

lemma str_find_SomeD: "str_find s p = Some i \<Longrightarrow> str_startswith (drop i s) p"
  by (auto simp: str_find_def dest: search_pos_SomeD)

lemma str_find_least:
  "str_find s p = Some i \<Longrightarrow> j < i \<Longrightarrow> \<not> str_startswith (drop j s) p"
  unfolding str_find_def by (rule search_pos_least)

lemma str_find_None:
  "str_find s p = None \<longleftrightarrow> (\<forall>j \<le> length s. \<not> str_startswith (drop j s) p)"
  unfolding str_find_def by (rule search_pos_None)

text \<open>\<open>p in s\<close> is the library's contiguous-sublist relation.\<close>

lemma str_contains_iff_sublist: "str_contains s p \<longleftrightarrow> sublist p s"
proof
  assume "str_contains s p"
  then obtain i where "str_find s p = Some i" by (auto simp: str_contains_def)
  then have "prefix p (drop i s)" by (auto dest: str_find_SomeD simp: str_startswith_iff_prefix)
  then show "sublist p s"
    by (metis append_take_drop_id prefix_def sublist_def)
next
  assume "sublist p s"
  then obtain xs ys where s: "s = xs @ p @ ys" by (auto simp: sublist_def)
  then have "str_startswith (drop (length xs) s) p" by (simp add: str_startswith_def)
  moreover have "length xs \<le> length s" using s by simp
  ultimately show "str_contains s p"
    using str_find_None by (fastforce simp: str_contains_def)
qed


lemma str_lower_take [simp]: "str_lower (take n s) = take n (str_lower s)"
  by (simp add: str_lower_def take_map)

lemma str_lower_drop [simp]: "str_lower (drop n s) = drop n (str_lower s)"
  by (simp add: str_lower_def drop_map)

subsection \<open>Case-insensitive search\<close>

lemma ci_find_None_iff: "ci_find s p = None \<longleftrightarrow> \<not> sublist (str_lower p) (str_lower s)"
  using str_contains_iff_sublist[of "str_lower s" "str_lower p"]
  by (auto simp: ci_find_def str_contains_def)

lemma ci_find_None_sublist:
  assumes "sublist u s" and "ci_find s p = None"
  shows "ci_find u p = None"
proof -
  from assms(1) obtain xs ys where "s = xs @ u @ ys" by (auto simp: sublist_def)
  then have "sublist (str_lower u) (str_lower s)" by (auto simp: sublist_def)
  with assms(2) show ?thesis
    by (meson ci_find_None_iff sublist_order.dual_order.trans)
qed

lemma ci_find_Some_start:
  assumes "ci_find s p = Some i"
  shows "i + length p \<le> length s \<and> take (length p) (drop i (str_lower s)) = str_lower p"
  using str_find_bound[of "str_lower s" "str_lower p" i] str_find_SomeD[of "str_lower s" "str_lower p" i]
    assms by (simp add: ci_find_def str_startswith_def)

lemma ci_find_at_0:
  assumes "take (length p) (str_lower s) = str_lower p"
  shows "ci_find s p = Some 0"
  using assms by (cases "str_lower s") (auto simp: ci_find_def str_find_def str_startswith_def)

lemma sublist_take_drop [simp]: "sublist (take n (drop i s)) s"
  by (metis sublist_order.dual_order.trans sublist_drop sublist_take)


lemma str_join_Cons: "str_join sep (x # xs) = (if xs = [] then x else x @ sep @ str_join sep xs)"
  by (cases xs) auto


lemma str_startswith_append: "str_startswith x p \<Longrightarrow> str_startswith (x @ y) p"
  by (auto simp: str_startswith_iff_prefix prefix_def)


subsection \<open>strip\<close>

lemma set_str_strip: "set (str_strip s) \<subseteq> set s"
proof
  fix x assume "x \<in> set (str_strip s)"
  then have "x \<in> set (rev (dropWhile is_space s))"
    by (auto simp: str_strip_def dest: set_dropWhileD)
  then show "x \<in> set s" by (auto dest: set_dropWhileD)
qed

lemma last_dropWhile: "dropWhile P xs \<noteq> [] \<Longrightarrow> last (dropWhile P xs) = last xs"
  by (induction xs) (auto simp: last_ConsR)

lemma str_strip_ends:
  "str_strip s = [] \<or> (\<not> is_space (hd (str_strip s)) \<and> \<not> is_space (last (str_strip s)))"
proof -
  let ?u = "dropWhile is_space s"
  let ?v = "dropWhile is_space (rev ?u)"
  have r: "str_strip s = rev ?v" by (simp add: str_strip_def)
  show ?thesis
  proof (cases "?v = []")
    case True
    with r show ?thesis by simp
  next
    case False
    have u: "?u \<noteq> []"
    proof
      assume "?u = []"
      then have "?v = []" by (simp only: rev.simps dropWhile.simps)
      with False show False by simp
    qed
    have "\<not> is_space (hd ?v)" using False by (rule hd_dropWhile)
    moreover have "last ?v = hd ?u" using False u by (simp add: last_dropWhile last_rev)
    moreover have "\<not> is_space (hd ?u)" using u by (rule hd_dropWhile)
    ultimately show ?thesis using r False by (simp add: hd_rev last_rev)
  qed
qed

lemma str_strip_id:
  assumes "s = [] \<or> (\<not> is_space (hd s) \<and> \<not> is_space (last s))"
  shows "str_strip s = s"
proof (cases "s = []")
  case False
  with assms have "dropWhile is_space s = s" and "dropWhile is_space (rev s) = rev s"
    by (simp_all add: dropWhile_eq_self_iff hd_rev)
  then show ?thesis by (simp add: str_strip_def)
qed (simp add: str_strip_def)

lemma str_strip_idem [simp]: "str_strip (str_strip s) = str_strip s"
  using str_strip_ends str_strip_id by blast


subsection \<open>split and join\<close>

lemma str_split_not_Nil [simp]: "str_split s sep \<noteq> []"
  by (subst str_split.simps) (simp split: option.splits)

lemma str_join_split: "sep \<noteq> [] \<Longrightarrow> str_join sep (str_split s sep) = s"
proof (induction s sep rule: str_split.induct)
  case (1 s sep)
  show ?case
  proof (cases "str_find s sep")
    case None
    with "1.prems" show ?thesis by (subst str_split.simps) simp
  next
    case (Some i)
    have at: "take (length sep) (drop i s) = sep"
      using str_find_SomeD[OF Some] by (simp add: str_startswith_def)
    have IH: "str_join sep (str_split (drop (i + length sep) s) sep) = drop (i + length sep) s"
      using "1.IH" "1.prems" Some by blast
    have "str_join sep (str_split s sep) = take i s @ sep @ drop (i + length sep) s"
      using "1.prems" Some IH by (subst str_split.simps) (simp add: str_join_Cons)
    also have "\<dots> = take i s @ take (length sep) (drop i s) @ drop (length sep) (drop i s)"
      using at by (simp add: add.commute)
    also have "\<dots> = s" by (simp only: append_take_drop_id)
    finally show ?thesis .
  qed
qed

lemma str_find_single:
  "c \<notin> set p \<Longrightarrow> str_find (p @ c # r) [c] = Some (length p)"
  by (induction p) (auto simp: str_find_def str_startswith_def)

lemma str_find_single_None:
  "c \<notin> set p \<Longrightarrow> str_find p [c] = None"
  by (induction p) (auto simp: str_find_def str_startswith_def)

lemma str_split_join:
  "ps \<noteq> [] \<Longrightarrow> \<forall>p \<in> set ps. c \<notin> set p \<Longrightarrow> str_split (str_join [c] ps) [c] = ps"
proof (induction ps)
  case Nil
  then show ?case by simp
next
  case (Cons x xs)
  show ?case
  proof (cases "xs = []")
    case True
    with Cons.prems show ?thesis by (subst str_split.simps) (simp add: str_find_single_None)
  next
    case False
    with Cons.prems have "str_find (x @ c # str_join [c] xs) [c] = Some (length x)"
      by (simp add: str_find_single)
    with False Cons show ?thesis by (subst str_split.simps) (simp add: str_join_Cons)
  qed
qed

text \<open>A word without spaces that occurs in a string still occurs in it once stripped.\<close>

lemma dropWhile_keeps_sublist:
  "sublist w xs \<Longrightarrow> w \<noteq> [] \<Longrightarrow> \<not> P (hd w) \<Longrightarrow> sublist w (dropWhile P xs)"
proof -
  assume "sublist w xs" "w \<noteq> []" "\<not> P (hd w)"
  then obtain a b where xs: "xs = a @ w @ b" and w: "w = hd w # tl w" by (auto simp: sublist_def)
  have "sublist w (dropWhile P (a @ w @ b))"
  proof (induction a)
    case Nil
    then show ?case using \<open>\<not> P (hd w)\<close> w by (metis dropWhile.simps(2) append_Cons append_Nil sublist_appendI)
  next
    case (Cons x a)
    show ?case
    proof (cases "P x")
      case True
      then show ?thesis using Cons.IH by simp
    next
      case False
      have "sublist w (a @ w @ b)" by (rule sublist_appendI)
      then show ?thesis using False by (simp add: sublist_Cons_right)
    qed
  qed
  with xs show ?thesis by simp
qed

lemma str_strip_keeps_sublist:
  assumes "sublist w s" and "w \<noteq> []" and "list_all (\<lambda>c. \<not> is_space c) w"
  shows "sublist w (str_strip s)"
proof -
  have hd: "\<not> is_space (hd w)" and lst: "\<not> is_space (last w)"
    using assms(2,3) by (auto simp: list_all_iff)
  have "sublist w (dropWhile is_space s)" using assms(1,2) hd by (rule dropWhile_keeps_sublist)
  then have "sublist (rev w) (rev (dropWhile is_space s))" by simp
  moreover have "\<not> is_space (hd (rev w))" using lst assms(2) by (simp add: hd_rev)
  ultimately have "sublist (rev w) (dropWhile is_space (rev (dropWhile is_space s)))"
    using assms(2) by (intro dropWhile_keeps_sublist) simp_all
  then show ?thesis by (simp add: str_strip_def sublist_rev_left)
qed

lemma is_space_lower_char [simp]: "is_space (lower_char c) = is_space c"
  by (auto simp: lower_char_def is_upper_def is_space_def Let_def)

lemma str_lower_strip: "str_lower (str_strip s) = str_strip (str_lower s)"
  by (simp add: str_lower_def str_strip_def dropWhile_map rev_map comp_def)

lemma ci_contains_strip:
  "ci_contains s k \<Longrightarrow> str_lower k \<noteq> [] \<Longrightarrow> list_all (\<lambda>c. \<not> is_space c) (str_lower k) \<Longrightarrow>
   ci_contains (str_strip s) k"
  unfolding ci_contains_def ci_find_None_iff str_lower_strip
  by (auto intro: str_strip_keeps_sublist)

text \<open>
  The first piece of a split, the pieces of a split at one character, and the words a
  join at one character can contain.
\<close>

lemma hd_str_split:
  "sep \<noteq> [] \<Longrightarrow> hd (str_split s sep) = (case str_find s sep of None \<Rightarrow> s | Some j \<Rightarrow> take j s)"
  by (subst str_split.simps) (simp split: option.split)

lemma str_find_no_sublist_before:
  assumes "str_find s p = Some j" "p \<noteq> []"
  shows "\<not> sublist p (take j s)"
proof
  assume "sublist p (take j s)"
  then obtain k where k: "str_find (take j s) p = Some k"
    using str_contains_iff_sublist by (auto simp: str_contains_def)
  then have b: "k + length p \<le> j" using str_find_bound by fastforce
  have "take (length p) (drop k (take j s)) = p"
    using str_find_SomeD[OF k] by (simp add: str_startswith_def)
  with b have "str_startswith (drop k s) p"
    by (simp add: str_startswith_def take_drop min_def)
  moreover have "k < j" using b assms(2) by (cases p) auto
  ultimately show False using str_find_least[OF assms(1)] by blast
qed

lemma sublist_single: "sublist [c] s \<longleftrightarrow> c \<in> set s"
  using split_list[of c s] by (auto simp: sublist_def)

lemma str_split_single_pieces: "p \<in> set (str_split s [c]) \<Longrightarrow> c \<notin> set p"
proof (induction s "[c]" rule: str_split.induct)
  case (1 s)
  show ?case
  proof (cases "str_find s [c]")
    case None
    then have "p = s" using "1.prems" by (subst (asm) str_split.simps) simp
    then show ?thesis using None str_contains_iff_sublist[of s "[c]"]
      by (auto simp: str_contains_def sublist_single)
  next
    case (Some i)
    then have "p = take i s \<or> p \<in> set (str_split (drop (i + 1) s) [c])"
      using "1.prems" by (subst (asm) str_split.simps) simp
    then show ?thesis
    proof
      assume "p = take i s"
      then show ?thesis using str_find_no_sublist_before[OF Some] by (simp add: sublist_single)
    next
      assume "p \<in> set (str_split (drop (i + 1) s) [c])"
      then show ?thesis using "1.hyps" Some by simp
    qed
  qed
qed

lemma set_str_join: "set (str_join sep xs) \<subseteq> set sep \<union> \<Union> (set ` set xs)"
  by (induction sep xs rule: str_join.induct) auto

lemma sublist_across_sep:
  assumes "sublist w (a @ c # b)" and "c \<notin> set w"
  shows "sublist w a \<or> sublist w b"
proof -
  have "sublist w a \<or> sublist w (c # b) \<or> (\<exists>w1 w2. w = w1 @ w2 \<and> suffix w1 a \<and> prefix w2 (c # b))"
    using assms(1) by (simp only: sublist_append)
  moreover have "sublist w (c # b) \<Longrightarrow> sublist w b"
    using assms(2) by (auto simp: sublist_Cons_right prefix_Cons)
  moreover have "w = w1 @ w2 \<Longrightarrow> suffix w1 a \<Longrightarrow> prefix w2 (c # b) \<Longrightarrow> sublist w a" for w1 w2
    using assms(2) by (cases w2) (auto simp: prefix_Cons suffix_imp_sublist)
  ultimately show ?thesis by blast
qed

lemma sublist_str_join_single:
  "sublist w (str_join [c] xs) \<Longrightarrow> c \<notin> set w \<Longrightarrow> w \<noteq> [] \<Longrightarrow> list_ex (sublist w) xs"
proof (induction xs)
  case Nil
  then show ?case by simp
next
  case (Cons x xs)
  show ?case
  proof (cases "xs = []")
    case True
    then show ?thesis using Cons.prems by simp
  next
    case False
    then have "sublist w (x @ c # str_join [c] xs)" using Cons.prems(1) by (simp add: str_join_Cons)
    then have "sublist w x \<or> sublist w (str_join [c] xs)"
      using Cons.prems(2) by (rule sublist_across_sep)
    then show ?thesis using Cons.IH Cons.prems(2,3) by auto
  qed
qed

lemma str_lower_join_newline: "str_lower (str_join ''\<newline>'' xs) = str_join ''\<newline>'' (map str_lower xs)"
  by (induction "''\<newline>''" xs rule: str_join.induct) (simp_all add: str_lower_def lower_char_def is_upper_def)

lemma str_count_no_sublist: "p \<noteq> [] \<Longrightarrow> \<not> sublist p s \<Longrightarrow> str_count s p = 0"
  using str_contains_iff_sublist[of s p]
  by (subst str_count.simps) (simp add: str_contains_def split: option.split)

end
