(* ===== verification/Segmenter.thy ===== *)
theory Segmenter
  imports PyStr
begin

text \<open>
  The section segmenter, \<open>ResumeProcessor._extract_section\<close>
  (src/app/services/resume_processor.py, lines 257--272). Every extractor calls it
  with a list of header names; it returns the text from the first occurrence of the
  first name that occurs (searched in the upper-cased text, ignoring case) up to the
  next line that looks like an all-caps header, or to the end of the text.

  The header regex \<open>\n[A-Z]{2,}\s*[:\n]\<close> is modelled by \<open>header_at\<close>, a
  deterministic matcher, and specified by \<open>header_pattern\<close>, its language written as
  a decomposition of the string; \<open>header_at_iff_pattern\<close> shows they agree.
  The main facts: the section is an infix of the text that starts with the header
  name and is followed by a header line or the end of the text, no header line occurs
  in it after the name (\<open>extract_section_shape\<close>), segmentation is idempotent
  (\<open>extract_section_idem\<close>), and it returns the empty string exactly when no
  header name occurs (\<open>extract_section_empty_iff\<close>).
\<close>

text \<open>\<open>\s*[:\n]\<close> matching at the start of a string.\<close>

fun header_tail :: "string \<Rightarrow> bool" where
  "header_tail [] = False"
| "header_tail (c # cs) =
     (c = CHR '':'' \<or> c = CHR ''\<newline>'' \<or> (is_space c \<and> header_tail cs))"

text \<open>
  \<open>\n[A-Z]{2,}\s*[:\n]\<close> matching at the start of a string. \<open>[A-Z]{2,}\<close> is
  greedy, and giving back a letter leaves a letter where \<open>\s\<close> or \<open>[:\n]\<close> must
  match, so the maximal run of capitals is the only candidate.
\<close>

definition header_at :: "string \<Rightarrow> bool" where
  "header_at s =
     (case s of
        [] \<Rightarrow> False
      | c # rest \<Rightarrow>
          (let k = length (takeWhile is_upper rest)
           in c = CHR ''\<newline>'' \<and> 2 \<le> k \<and> header_tail (drop k rest)))"

text \<open>The language of the header regex, as a specification of \<open>header_at\<close>.\<close>

definition header_pattern :: "string \<Rightarrow> bool" where
  "header_pattern s \<longleftrightarrow>
     (\<exists>ups sps c rest. s = CHR ''\<newline>'' # ups @ sps @ c # rest \<and> 2 \<le> length ups \<and>
        list_all is_upper ups \<and> list_all is_space sps \<and> (c = CHR '':'' \<or> c = CHR ''\<newline>''))"

text \<open>\<open>re.search(r"\n[A-Z]{2,}\s*[:\n]", s).start()\<close>.\<close>

definition find_header :: "string \<Rightarrow> nat option" where
  "find_header s = search_pos header_at s"

text \<open>
  \<open>_extract_section(text, section_names)\<close>. The source searches
  \<open>section_name[:\s]*(.*?)(?=...|$)\<close> in \<open>text.upper()\<close> with \<open>re.IGNORECASE\<close>
  and \<open>re.DOTALL\<close>; the tail of that pattern matches from every position (it can
  always stretch to \<open>$\<close>), so the match starts at the first case-insensitive
  occurrence of the name. The next header is searched in the original text after the
  name, and the section is the slice \<open>text[start_pos:end_pos]\<close>.
\<close>

fun extract_section :: "string \<Rightarrow> string list \<Rightarrow> string" where
  "extract_section text [] = []"
| "extract_section text (section_name # section_names) =
     (case ci_find (str_upper text) section_name of
        None \<Rightarrow> extract_section text section_names
      | Some start_pos \<Rightarrow>
          (let end_pos =
             (case find_header (drop (start_pos + length section_name) text) of
                Some j \<Rightarrow> start_pos + length section_name + j
              | None \<Rightarrow> length text)
           in take (end_pos - start_pos) (drop start_pos text)))"

declare header_at_def [eval_simps] find_header_def [eval_simps]

subsection \<open>The header regex\<close>

lemma header_tail_iff:
  "header_tail s \<longleftrightarrow>
     (\<exists>sps c rest. s = sps @ c # rest \<and> list_all is_space sps \<and> (c = CHR '':'' \<or> c = CHR ''\<newline>''))"
proof (induction s)
  case Nil
  then show ?case by simp
next
  case (Cons x xs)
  show ?case
  proof
    assume "header_tail (x # xs)"
    then consider "x = CHR '':'' \<or> x = CHR ''\<newline>''" | "is_space x" "header_tail xs" by auto
    then show "\<exists>sps c rest. x # xs = sps @ c # rest \<and> list_all is_space sps \<and>
                 (c = CHR '':'' \<or> c = CHR ''\<newline>'')"
    proof cases
      case 1
      then show ?thesis by (intro exI[of _ "[]"]) auto
    next
      case 2
      with Cons.IH obtain sps c rest where "xs = sps @ c # rest" "list_all is_space sps"
          "c = CHR '':'' \<or> c = CHR ''\<newline>''" by blast
      with 2 show ?thesis by (intro exI[of _ "x # sps"]) auto
    qed
  next
    assume "\<exists>sps c rest. x # xs = sps @ c # rest \<and> list_all is_space sps \<and>
              (c = CHR '':'' \<or> c = CHR ''\<newline>'')"
    then obtain sps c rest where d: "x # xs = sps @ c # rest" "list_all is_space sps"
        "c = CHR '':'' \<or> c = CHR ''\<newline>''" by blast
    show "header_tail (x # xs)"
    proof (cases sps)
      case Nil
      with d show ?thesis by auto
    next
      case (Cons y ys)
      with d Cons.IH show ?thesis by auto
    qed
  qed
qed

lemma header_tail_not_upper: "header_tail (c # cs) \<Longrightarrow> \<not> is_upper c"
  by (auto simp: is_upper_def)

lemma header_tail_append: "header_tail s \<Longrightarrow> header_tail (s @ t)"
  by (induction s) auto

lemma takeWhile_upper_split:
  assumes "list_all is_upper ups" and "\<not> is_upper c"
  shows "takeWhile is_upper (ups @ c # rest) = ups"
  using assms by (induction ups) auto

text \<open>
  C3: the deterministic matcher of the header line accepts exactly the strings the
  regex \<open>\n[A-Z]{2,}\s*[:\n]\<close> matches at their start.
\<close>

lemma header_at_iff_pattern: "header_at s \<longleftrightarrow> header_pattern s"
proof
  assume h: "header_at s"
  then obtain rest where s: "s = CHR ''\<newline>'' # rest" by (cases s) (auto simp: header_at_def Let_def)
  define ups where "ups = takeWhile is_upper rest"
  from h s have k: "2 \<le> length ups" and tl: "header_tail (drop (length ups) rest)"
    by (auto simp: header_at_def ups_def Let_def)
  have rest: "rest = ups @ drop (length ups) rest"
    by (metis ups_def append_eq_conv_conj takeWhile_dropWhile_id length_takeWhile_le
        append_take_drop_id take_all_iff)
  from tl obtain sps c r where "drop (length ups) rest = sps @ c # r" "list_all is_space sps"
      "c = CHR '':'' \<or> c = CHR ''\<newline>''" by (auto simp: header_tail_iff)
  moreover have "list_all is_upper ups" by (auto simp: ups_def list_all_iff dest: set_takeWhileD)
  ultimately show "header_pattern s" using s k rest unfolding header_pattern_def
    by (metis (no_types, lifting))
next
  assume "header_pattern s"
  then obtain ups sps c rest where s: "s = CHR ''\<newline>'' # ups @ sps @ c # rest"
      and k: "2 \<le> length ups" and u: "list_all is_upper ups" and sp: "list_all is_space sps"
      and c: "c = CHR '':'' \<or> c = CHR ''\<newline>''"
    unfolding header_pattern_def by blast
  have tl: "header_tail (sps @ c # rest)" using sp c by (auto simp: header_tail_iff)
  then obtain d ds where d: "sps @ c # rest = d # ds" by (cases sps) auto
  with tl have "\<not> is_upper d" using header_tail_not_upper by auto
  with u d have "takeWhile is_upper (ups @ sps @ c # rest) = ups"
    using takeWhile_upper_split by metis
  with s k tl show "header_at s" by (simp add: header_at_def)
qed

lemma header_at_append: "header_at s \<Longrightarrow> header_at (s @ t)"
proof -
  assume h: "header_at s"
  then obtain rest where s: "s = CHR ''\<newline>'' # rest" by (cases s) (auto simp: header_at_def Let_def)
  define k where "k = length (takeWhile is_upper rest)"
  from h s have k: "2 \<le> k" and tl: "header_tail (drop k rest)"
    by (auto simp: header_at_def k_def Let_def)
  then obtain d ds where d: "drop k rest = d # ds" by (cases "drop k rest") auto
  with tl have "\<not> is_upper d" using header_tail_not_upper by auto
  moreover have "d \<in> set rest" using d by (metis in_set_dropD list.set_intros(1))
  ultimately have tw: "takeWhile is_upper (rest @ t) = takeWhile is_upper rest"
    by (simp add: takeWhile_append1)
  have "k \<le> length rest" by (simp add: k_def length_takeWhile_le)
  then have "drop k (rest @ t) = drop k rest @ t" by simp
  with s k tl tw show ?thesis by (simp add: header_at_def k_def header_tail_append)
qed

lemma header_at_Nil [simp]: "\<not> header_at []"
  by (simp add: header_at_def)

text \<open>A search in a prefix of a string finds no header the whole string does not have.\<close>

lemma find_header_take_None:
  assumes "find_header s = None \<or> (\<exists>j. find_header s = Some j \<and> i \<le> j)"
  shows "find_header (take i s) = None"
  unfolding find_header_def search_pos_None
proof (intro allI impI notI)
  fix k assume k: "k \<le> length (take i s)" and h: "header_at (drop k (take i s))"
  then have "k < i" using h by (cases "k = i") auto
  have "drop k (take i s) = take (i - k) (drop k s)" by (simp add: drop_take)
  with h have "header_at (drop k s)"
    by (metis append_take_drop_id header_at_append)
  moreover have "k \<le> length s" using k by simp
  ultimately show False
    using assms \<open>k < i\<close> search_pos_None search_pos_least unfolding find_header_def
    by (metis order_less_le_trans)
qed

subsection \<open>Sections\<close>

text \<open>The slice the source returns when a header name is found at \<open>i\<close>.\<close>

lemma extract_section_found:
  assumes "ci_find (str_upper t) n = Some i"
  shows "\<exists>m. extract_section t (n # ns) = take (length n + m) (drop i t)
           \<and> (find_header (drop (i + length n) t) = Some m
              \<or> (find_header (drop (i + length n) t) = None \<and> m = length t - (i + length n)))"
proof -
  have "i + length n \<le> length t" using ci_find_Some_start[OF assms] by simp
  then show ?thesis using assms by (auto split: option.splits)
qed


lemma str_upper_sublist:
  assumes "sublist u t"
  shows "sublist (str_upper u) (str_upper t)"
proof -
  from assms obtain ps ss where "t = ps @ u @ ss" by (auto simp: sublist_def)
  then show ?thesis unfolding sublist_def
    by (intro exI[of _ "str_upper ps"] exI[of _ "str_upper ss"]) simp
qed

lemma extract_section_sublist: "sublist (extract_section t ns) t"
  by (induction ns) (auto simp: Let_def split: option.splits)

text \<open>
  Where the found name \<open>n\<close> is at \<open>i\<close> and the section is \<open>m\<close> characters
  longer than the name: the slice starts with the name, and no header starts in it
  after the name.
\<close>

lemma found_slice_starts:
  assumes "ci_find (str_upper t) n = Some i"
  shows "take (length n) (str_lower (str_upper (take (length n + m) (drop i t)))) = str_lower n"
proof -
  from ci_find_Some_start[OF assms]
  have "take (length n) (drop i (str_lower (str_upper t))) = str_lower n" by simp
  then show ?thesis by (simp add: min_def)
qed

lemma found_slice_no_header:
  assumes "find_header (drop (i + length n) t) = Some m
           \<or> (find_header (drop (i + length n) t) = None \<and> m = length t - (i + length n))"
  shows "find_header (drop (length n) (take (length n + m) (drop i t))) = None"
proof -
  have "drop (length n) (take (length n + m) (drop i t)) = take m (drop (i + length n) t)"
    by (simp add: drop_take add.commute)
  moreover have "find_header (take m (drop (i + length n) t)) = None"
    using assms find_header_take_None[of "drop (i + length n) t" m] by auto
  ultimately show ?thesis by simp
qed

lemma found_slice_rest:
  assumes "find_header (drop (i + length n) t) = Some m
           \<or> (find_header (drop (i + length n) t) = None \<and> m = length t - (i + length n))"
  shows "drop (length n + m) (drop i t) = [] \<or> header_at (drop (length n + m) (drop i t))"
  using assms search_pos_SomeD[of header_at "drop (i + length n) t" m]
  by (auto simp: find_header_def add.commute add.left_commute)

text \<open>
  C2: the section's shape. It is a slice \<open>t = pre @ section @ rest\<close> where \<open>pre\<close> ends
  at the first occurrence of a listed header name (ignoring case), the section starts
  with that name, contains no header line after it, and \<open>rest\<close> is empty or starts
  with the header line that ended it.
\<close>

theorem extract_section_shape:
  assumes "extract_section t ns \<noteq> []"
  shows "\<exists>n \<in> set ns. \<exists>pre rest.
           t = pre @ extract_section t ns @ rest \<and>
           ci_find (str_upper t) n = Some (length pre) \<and>
           take (length n) (str_lower (str_upper (extract_section t ns))) = str_lower n \<and>
           find_header (drop (length n) (extract_section t ns)) = None \<and>
           (rest = [] \<or> header_at rest)"
  using assms
proof (induction ns)
  case Nil
  then show ?case by simp
next
  case (Cons n ns)
  show ?case
  proof (cases "ci_find (str_upper t) n")
    case None
    with Cons show ?thesis by auto
  next
    case (Some i)
    from extract_section_found[OF Some, of ns] obtain m
      where r: "extract_section t (n # ns) = take (length n + m) (drop i t)"
        and m: "find_header (drop (i + length n) t) = Some m
           \<or> (find_header (drop (i + length n) t) = None \<and> m = length t - (i + length n))"
      by blast
    have i: "i \<le> length t" using ci_find_Some_start[OF Some] by simp
    have split: "t = take i t @ take (length n + m) (drop i t) @ drop (length n + m) (drop i t)"
      by (simp only: append_take_drop_id)
    show ?thesis
      using r split i Some found_slice_starts[OF Some] found_slice_no_header[OF m]
        found_slice_rest[OF m]
      by (intro bexI[of _ n] exI[of _ "take i t"] exI[of _ "drop (length n + m) (drop i t)"])
         (auto simp: min_def)
  qed
qed

text \<open>
  C1: segmentation is idempotent: running the segmenter, with the same header names,
  on a section it returned gives the section back.
\<close>

theorem extract_section_idem:
  "extract_section (extract_section t ns) ns = extract_section t ns"
proof (induction ns)
  case Nil
  show ?case by simp
next
  case (Cons n ns)
  show ?case
  proof (cases "ci_find (str_upper t) n")
    case None
    have "sublist (str_upper (extract_section t ns)) (str_upper t)"
      by (rule str_upper_sublist[OF extract_section_sublist])
    then have "ci_find (str_upper (extract_section t ns)) n = None"
      using None by (rule ci_find_None_sublist)
    with None Cons.IH show ?thesis by simp
  next
    case (Some i)
    from extract_section_found[OF Some, of ns] obtain m
      where r: "extract_section t (n # ns) = take (length n + m) (drop i t)"
        and m: "find_header (drop (i + length n) t) = Some m
           \<or> (find_header (drop (i + length n) t) = None \<and> m = length t - (i + length n))"
      by blast
    let ?r = "take (length n + m) (drop i t)"
    have "ci_find (str_upper ?r) n = Some 0"
      using found_slice_starts[OF Some] by (intro ci_find_at_0) simp
    moreover have "find_header (drop (length n) ?r) = None"
      by (rule found_slice_no_header[OF m])
    moreover have "take (min (length t - i) (length n + m)) (drop i t) = ?r"
      by (cases "length t - i \<le> length n + m") (simp_all add: min_def)
    ultimately have "extract_section ?r (n # ns) = ?r" by (simp add: Let_def)
    with r show ?thesis by simp
  qed
qed

text \<open>
  C4: with non-empty header names, the section is empty exactly when no name occurs in
  the text, ignoring case.
\<close>

theorem extract_section_empty_iff:
  assumes "\<forall>n \<in> set ns. n \<noteq> []"
  shows "extract_section t ns = [] \<longleftrightarrow> (\<forall>n \<in> set ns. ci_find (str_upper t) n = None)"
  using assms
proof (induction ns)
  case Nil
  then show ?case by simp
next
  case (Cons n ns)
  show ?case
  proof (cases "ci_find (str_upper t) n")
    case None
    with Cons show ?thesis by simp
  next
    case (Some i)
    from extract_section_found[OF Some, of ns] obtain m
      where r: "extract_section t (n # ns) = take (length n + m) (drop i t)" by blast
    have "i + length n \<le> length t" using ci_find_Some_start[OF Some] by simp
    moreover have "0 < length n" using Cons.prems by simp
    ultimately have "i < length t" by arith
    then have "take (length n + m) (drop i t) \<noteq> []" using \<open>0 < length n\<close> by simp
    with r Some show ?thesis by simp
  qed
qed


subsection \<open>Witnesses\<close>

theorem extract_section_shape_witness:
  "extract_section ''A\<newline>SKILLS: Go\<newline>HOBBIES\<newline>x'' [''SKILLS''] \<noteq> [] \<and>
   (\<exists>n \<in> set [''SKILLS'']. \<exists>pre rest.
      ''A\<newline>SKILLS: Go\<newline>HOBBIES\<newline>x'' =
        pre @ extract_section ''A\<newline>SKILLS: Go\<newline>HOBBIES\<newline>x'' [''SKILLS''] @ rest \<and>
      ci_find (str_upper ''A\<newline>SKILLS: Go\<newline>HOBBIES\<newline>x'') n = Some (length pre) \<and>
      take (length n) (str_lower (str_upper
        (extract_section ''A\<newline>SKILLS: Go\<newline>HOBBIES\<newline>x'' [''SKILLS'']))) = str_lower n \<and>
      find_header (drop (length n)
        (extract_section ''A\<newline>SKILLS: Go\<newline>HOBBIES\<newline>x'' [''SKILLS''])) = None \<and>
      (rest = [] \<or> header_at rest))"
proof -
  have h: "extract_section ''A\<newline>SKILLS: Go\<newline>HOBBIES\<newline>x'' [''SKILLS''] \<noteq> []"
    by (simp add: eval_simps)
  show ?thesis using h extract_section_shape[OF h] by blast
qed

theorem extract_section_empty_iff_witness:
  "extract_section ''SKILLS\<newline>Go'' [''HOBBIES'', ''INTERESTS''] = [] \<and>
   ci_find (str_upper ''SKILLS\<newline>Go'') ''HOBBIES'' = None \<and>
   ci_find (str_upper ''SKILLS\<newline>Go'') ''INTERESTS'' = None"
proof -
  have h: "\<forall>n \<in> set [''HOBBIES'', ''INTERESTS'']. n \<noteq> []" by simp
  have "\<forall>n \<in> set [''HOBBIES'', ''INTERESTS'']. ci_find (str_upper ''SKILLS\<newline>Go'') n = None"
    by (simp add: eval_simps)
  with extract_section_empty_iff[OF h] show ?thesis by simp
qed

end
