(* ===== verification/Candidate.thy ===== *)
theory Candidate
  imports Prelude
begin

text \<open>
  The data model of src/app/models/candidate.py. Each pydantic model is a record;
  an \<open>Optional[str]\<close> field is a \<open>string option\<close> (\<open>None\<close> is Python's
  \<open>None\<close>, the default). Projects are the only schema-less entries
  (\<open>List[Dict[str, Any]]\<close>); the extractor only ever stores strings in them, so a
  project is an association list from keys to strings, in insertion order, as a Python
  dict keeps them. \<open>QuestionRequest\<close> is a single string and is not a record here.
  Counts (\<open>int\<close> in Python) are never negative and are \<open>nat\<close>.
\<close>

record education =
  degree :: "string option"
  institution :: "string option"
  field :: "string option"
  start_date :: "string option"
  end_date :: "string option"
  gpa :: "string option"

record experience =
  title :: "string option"
  company :: "string option"
  start_date :: "string option"
  end_date :: "string option"
  description :: "string option"
  location :: "string option"

type_synonym project = "(string \<times> string) list"

record candidate =
  candidate_id :: string
  education :: "education list"
  experience :: "experience list"
  skills :: "string list"
  hobbies :: "string list"
  certifications :: "string list"
  projects :: "project list"
  introduction :: string

record candidate_summary =
  candidate_id :: string
  introduction :: string
  skills :: "string list"
  experience_count :: nat
  education_count :: nat

end
