(* ===== verification/Education.thy ===== *)
theory Education
  imports Segmenter Candidate
begin

text \<open>
  The education extractor, \<open>ResumeProcessor._extract_education\<close>
  (src/app/services/resume_processor.py, lines 71--112). It segments the EDUCATION
  section, walks its stripped lines, and accumulates one \<open>education\<close> record per
  blank-line separated block (the generic loop \<open>para_loop\<close> of the prelude); the
  line handler \<open>edu_line\<close> fills the degree, the institution and the two dates,
  each first-writer-wins. At most five records are kept.

  Main facts: the loop equals parsing each block on its own and keeping the non-empty
  results (\<open>extract_education_blocks\<close>); a block's record is described without the
  fold by \<open>education_of_block\<close> (\<open>foldl_edu_line\<close>): both dates come from the
  first line of the block that has a year; every extracted record is well formed and
  there are at most five (\<open>extract_education_ok\<close>).
\<close>

definition degree_patterns :: "string list list" where
  "degree_patterns =
     [[''Bachelor'', ''B.S.'', ''B.A.'', ''Master'', ''M.S.'', ''M.A.'', ''MBA'', ''PhD'', ''Ph.D.'',
       ''Doctorate''],
      [''Bachelor of'', ''Master of'', ''Doctor of'']]"

definition institution_keywords :: "string list" where
  "institution_keywords = [''university'', ''college'', ''institute'', ''school'']"

text \<open>
  \<open>for pattern in degree_patterns: if re.search(pattern, line): ... break\<close>: the
  loop only decides whether some pattern matches.
\<close>

definition degree_match :: "string \<Rightarrow> bool" where
  "degree_match line \<longleftrightarrow> list_ex (\<lambda>pattern. ci_search_any pattern line) degree_patterns"

definition institution_match :: "string \<Rightarrow> bool" where
  "institution_match line \<longleftrightarrow> ci_search_any institution_keywords line"

text \<open>
  \<open>re.findall(r"\d{4}", line)\<close>: scanning left to right, four digits are taken as
  one match and the scan resumes after them; otherwise it moves one character on.
\<close>

fun findall_years :: "string \<Rightarrow> string list" where
  "findall_years (a # b # c # d # cs) =
     (if is_digit a \<and> is_digit b \<and> is_digit c \<and> is_digit d
      then [a, b, c, d] # findall_years cs
      else findall_years (b # c # d # cs))"
| "findall_years _ = []"

definition empty_education :: education where
  "empty_education = \<lparr>degree = None, institution = None, field = None,
     education.start_date = None, education.end_date = None, gpa = None\<rparr>"

text \<open>\<open>if current_edu:\<close>: the dict is empty when no key has been set.\<close>

definition edu_empty :: "education \<Rightarrow> bool" where
  "edu_empty e \<longleftrightarrow> e = empty_education"

text \<open>
  The body of the loop for a non-blank stripped line (lines 92--107). The end date is
  written before the start date, each only when still unset.
\<close>

definition edu_line :: "education \<Rightarrow> string \<Rightarrow> education" where
  "edu_line current_edu line =
     (let current_edu =
        (if degree_match line \<and> degree current_edu = None
         then current_edu\<lparr>degree := Some line\<rparr> else current_edu);
      current_edu =
        (if institution_match line \<and> institution current_edu = None
         then current_edu\<lparr>institution := Some line\<rparr> else current_edu);
      dates = findall_years line
      in if dates \<noteq> []
         then (let current_edu =
                 (if education.end_date current_edu = None
                  then current_edu\<lparr>education.end_date := Some (last dates)\<rparr> else current_edu)
               in if education.start_date current_edu = None
                  then current_edu\<lparr>education.start_date := Some (hd dates)\<rparr> else current_edu)
         else current_edu)"

definition extract_education :: "string \<Rightarrow> education list" where
  "extract_education text =
     (let edu_section = extract_section text [''EDUCATION'', ''ACADEMIC'', ''QUALIFICATION''];
          lines = str_split edu_section ''\<newline>''
      in take 5 (para_loop edu_empty empty_education edu_line (map str_strip lines)))"

subsection \<open>Specification\<close>

text \<open>
  A block's record, without the fold: the degree and the institution are the first
  matching lines, and both dates come from the first line that contains a year.
\<close>

definition education_of_block :: "string list \<Rightarrow> education" where
  "education_of_block block =
     \<lparr>degree = find degree_match block,
      institution = find institution_match block,
      field = None,
      education.start_date = map_option (\<lambda>l. hd (findall_years l)) (find (\<lambda>l. findall_years l \<noteq> []) block),
      education.end_date = map_option (\<lambda>l. last (findall_years l)) (find (\<lambda>l. findall_years l \<noteq> []) block),
      gpa = None\<rparr>"

definition is_year :: "string \<Rightarrow> bool" where
  "is_year y \<longleftrightarrow> length y = 4 \<and> list_all is_digit y"

definition edu_entry_ok :: "education \<Rightarrow> bool" where
  "edu_entry_ok e \<longleftrightarrow>
     \<not> edu_empty e \<and>
     (education.start_date e = None) = (education.end_date e = None) \<and>
     pred_option is_year (education.start_date e) \<and> pred_option is_year (education.end_date e) \<and>
     pred_option degree_match (degree e) \<and> pred_option institution_match (institution e) \<and>
     field e = None \<and> gpa e = None"

declare degree_patterns_def [eval_simps] institution_keywords_def [eval_simps]
  degree_match_def [eval_simps] institution_match_def [eval_simps]
  empty_education_def [eval_simps] edu_empty_def [eval_simps] edu_line_def [eval_simps]
  extract_education_def [eval_simps]

subsection \<open>Years\<close>

lemma findall_years_are_years: "list_all is_year (findall_years s)"
  by (induction s rule: findall_years.induct) (auto simp: is_year_def)

subsection \<open>One block\<close>

text \<open>
  The line handler over a whole block, from any record: each field keeps a value it
  already has, and otherwise takes what the block provides.
\<close>

lemma foldl_edu_line:
  "foldl edu_line c block =
     c\<lparr>degree := first_writer (degree c) (find degree_match block),
       institution := first_writer (institution c) (find institution_match block),
       education.start_date := first_writer (education.start_date c)
         (map_option (\<lambda>l. hd (findall_years l)) (find (\<lambda>l. findall_years l \<noteq> []) block)),
       education.end_date := first_writer (education.end_date c)
         (map_option (\<lambda>l. last (findall_years l)) (find (\<lambda>l. findall_years l \<noteq> []) block))\<rparr>"
proof (induction block arbitrary: c)
  case Nil
  then show ?case by (cases c) (simp add: first_writer_def split: option.splits)
next
  case (Cons l ls)
  then show ?case
    by (cases c) (auto simp: edu_line_def Let_def first_writer_def split: option.splits)
qed

lemma foldl_edu_line_empty: "foldl edu_line empty_education = education_of_block"
  by (rule ext) (simp add: foldl_edu_line empty_education_def education_of_block_def)



lemma education_of_block_ok:
  "\<not> edu_empty (education_of_block bl) \<Longrightarrow> edu_entry_ok (education_of_block bl)"
proof -
  assume ne: "\<not> edu_empty (education_of_block bl)"
  let ?d = "find (\<lambda>l. findall_years l \<noteq> []) bl"
  have dated: "pred_option (\<lambda>l. findall_years l \<noteq> []) ?d" by (rule find_pred)
  have years: "list_all is_year (findall_years l)" for l by (rule findall_years_are_years)
  have "pred_option is_year (map_option (\<lambda>l. hd (findall_years l)) ?d)"
  proof (cases ?d)
    case (Some l)
    with dated have "hd (findall_years l) \<in> set (findall_years l)" by simp
    with Some years[of l] show ?thesis by (simp add: list_all_iff)
  qed simp
  moreover have "pred_option is_year (map_option (\<lambda>l. last (findall_years l)) ?d)"
  proof (cases ?d)
    case (Some l)
    with dated have "last (findall_years l) \<in> set (findall_years l)" by simp
    with Some years[of l] show ?thesis by (simp add: list_all_iff)
  qed simp
  ultimately show ?thesis
    using ne find_pred[of degree_match bl] find_pred[of institution_match bl]
    by (simp add: edu_entry_ok_def education_of_block_def)
qed

text \<open>
  C5: the extractor's loop computes, in order, one record per blank-line separated
  block of stripped lines of the EDUCATION section, parsed on its own, keeps the
  non-empty ones and truncates to five.
\<close>

theorem extract_education_blocks:
  "extract_education t =
     take 5 (filter (\<lambda>e. \<not> edu_empty e)
       (map education_of_block
         (split_when (\<lambda>l. l = [])
           (map str_strip (str_split (extract_section t [''EDUCATION'', ''ACADEMIC'', ''QUALIFICATION''])
              ''\<newline>'')))))"
proof -
  have "\<And>c. edu_empty c \<Longrightarrow> c = empty_education" by (simp add: edu_empty_def)
  then show ?thesis unfolding extract_education_def Let_def
    by (simp only: para_loop_blocks foldl_edu_line_empty)
qed

text \<open>
  C6: every extracted education record is non-empty, has both dates or neither, holds
  four-digit years as dates, a degree line that matches a degree pattern and an
  institution line that names an institution keyword, never sets \<open>field\<close> or
  \<open>gpa\<close>; and there are at most five records.
\<close>

theorem extract_education_ok:
  "list_all edu_entry_ok (extract_education t) \<and> length (extract_education t) \<le> 5"
proof -
  have "list_all edu_entry_ok (filter (\<lambda>e. \<not> edu_empty e) (map education_of_block bs))" for bs
    by (induction bs) (auto intro: education_of_block_ok)
  then have H: "list_all edu_entry_ok (take 5 (filter (\<lambda>e. \<not> edu_empty e) (map education_of_block bs)))"
    for bs by blast
  have "\<And>c. edu_empty c \<Longrightarrow> c = empty_education" by (simp add: edu_empty_def)
  then show ?thesis unfolding extract_education_def Let_def
    by (simp only: para_loop_blocks foldl_edu_line_empty H) simp

qed

end
