(* ===== verification/Skills.thy ===== *)
theory Skills
  imports Segmenter
begin

text \<open>
  The list extractors of src/app/services/resume_processor.py:
  \<open>_extract_skills\<close> (lines 156--185), \<open>_extract_hobbies\<close> (lines 187--201) and
  \<open>_extract_certifications\<close> (lines 203--214). Skills are found in two passes: the
  fixed vocabulary, searched as whole words ignoring case in the SKILLS section (or the
  whole text when there is none), then the delimiter-separated tokens of the section's
  lines. Hobbies are the tokens of the HOBBIES section, certifications the lines of the
  CERTIFICATIONS section that name a certification keyword.

  Main facts: the skills are duplicate-free and at most thirty
  (\<open>extract_skills_distinct\<close>); they are the vocabulary hits, in vocabulary order,
  followed by section tokens that pass the filter (\<open>extract_skills_shape\<close>); hobbies
  and certifications are bounded by ten and each satisfies its filter.
\<close>

definition skill_keywords :: "string list" where
  "skill_keywords =
     [''Python'', ''Java'', ''JavaScript'', ''SQL'', ''MongoDB'', ''PostgreSQL'',
      ''FastAPI'', ''React'', ''Node.js'', ''Docker'', ''AWS'', ''Git'', ''Linux'',
      ''Machine Learning'', ''Data Science'', ''TensorFlow'', ''PyTorch'',
      ''Pandas'', ''NumPy'', ''scikit-learn'', ''Kubernetes'', ''Redis'',
      ''Elasticsearch'', ''GraphQL'', ''REST API'', ''Microservices'']"

text \<open>
  \<open>\b\<close> at position \<open>i\<close>: exactly one of the characters before and after \<open>i\<close>
  is a word character (a missing character is not one).
\<close>

definition word_boundary :: "string \<Rightarrow> nat \<Rightarrow> bool" where
  "word_boundary s i \<longleftrightarrow> (0 < i \<and> is_word (s ! (i - 1))) \<noteq> (i < length s \<and> is_word (s ! i))"

text \<open>
  \<open>re.search(rf"\b{re.escape(skill)}\b", s, re.IGNORECASE)\<close>: the escaped skill
  is a literal; it matches at \<open>i\<close> when both ends are word boundaries.
\<close>

definition whole_word_at :: "string \<Rightarrow> string \<Rightarrow> nat \<Rightarrow> bool" where
  "whole_word_at s w i \<longleftrightarrow>
     word_boundary s i \<and> take (length w) (drop i (str_lower s)) = str_lower w \<and>
     word_boundary s (i + length w)"

definition search_word :: "string \<Rightarrow> string \<Rightarrow> bool" where
  "search_word s w \<longleftrightarrow> list_ex (whole_word_at s w) [0..<Suc (length s)]"

text \<open>The class \<open>[,;\<bullet>\-]\<close> of \<open>re.split\<close>.\<close>

definition item_sep :: "char \<Rightarrow> bool" where
  "item_sep c \<longleftrightarrow> c = CHR '','' \<or> c = CHR '';'' \<or> c = bullet \<or> c = CHR ''-''"

text \<open>\<open>re.search(r"^(skills|technical|proficient)", item, re.I)\<close>.\<close>

definition label_prefix :: "string \<Rightarrow> bool" where
  "label_prefix item \<longleftrightarrow>
     list_ex (\<lambda>p. str_startswith (str_lower item) p) [''skills'', ''technical'', ''proficient'']"

text \<open>The first pass, one vocabulary entry (lines 171--174).\<close>

definition add_keyword :: "string \<Rightarrow> string list \<Rightarrow> string \<Rightarrow> string list" where
  "add_keyword text_to_search skills skill =
     (if search_word text_to_search skill
      then (if skill \<notin> set skills then skills @ [skill] else skills)
      else skills)"

text \<open>The second pass, one item of a line (lines 179--183).\<close>

definition add_item :: "string list \<Rightarrow> string \<Rightarrow> string list" where
  "add_item skills raw =
     (let item = str_strip raw
      in if 2 < length item \<and> length item < 50
         then (if item \<notin> set skills \<and> \<not> label_prefix item then skills @ [item] else skills)
         else skills)"

definition extract_skills :: "string \<Rightarrow> string list" where
  "extract_skills text =
     (let skills_section = extract_section text [''SKILLS'', ''TECHNICAL SKILLS'', ''COMPETENCIES''];
          text_to_search = (if skills_section \<noteq> [] then skills_section else text);
          skills = foldl (add_keyword text_to_search) [] skill_keywords;
          lines = (if skills_section \<noteq> [] then str_split skills_section ''\<newline>'' else []);
          skills = foldl (\<lambda>skills line. foldl add_item skills (split_when item_sep line)) skills lines
      in take 30 skills)"

text \<open>The hobby filter (lines 196--199): tokens of length 3 to 49, kept with repeats.\<close>

definition hobby_item :: "string \<Rightarrow> bool" where
  "hobby_item item \<longleftrightarrow> 2 < length item \<and> length item < 50"

definition extract_hobbies :: "string \<Rightarrow> string list" where
  "extract_hobbies text =
     (let hobbies_section = extract_section text [''HOBBIES'', ''INTERESTS'', ''ACTIVITIES'']
      in if hobbies_section \<noteq> []
         then take 10 (concat (map (\<lambda>line. filter hobby_item (map str_strip (split_when item_sep line)))
                       (str_split hobbies_section ''\<newline>'')))
         else [])"

definition cert_keywords :: "string list" where
  "cert_keywords = [''certified'', ''certificate'', ''certification'', ''license'', ''credential'']"

text \<open>The keyword is searched in the raw line; the stripped line is kept (lines 210--212).\<close>

definition extract_certifications :: "string \<Rightarrow> string list" where
  "extract_certifications text =
     (let cert_section = extract_section text [''CERTIFICATIONS'', ''CERTIFICATES'', ''LICENSES'']
      in if cert_section \<noteq> []
         then take 10 (map str_strip (filter (ci_search_any cert_keywords) (str_split cert_section ''\<newline>'')))
         else [])"

subsection \<open>Specification\<close>

text \<open>A token that the second pass of the skills extractor may add.\<close>

definition skill_token_ok :: "string \<Rightarrow> bool" where
  "skill_token_ok item \<longleftrightarrow>
     2 < length item \<and> length item < 50 \<and> \<not> label_prefix item \<and>
     list_all (\<lambda>c. \<not> item_sep c) item \<and> str_strip item = item"

text \<open>A hobby as the filter of the hobby extractor leaves it.\<close>

definition hobby_ok :: "string \<Rightarrow> bool" where
  "hobby_ok h \<longleftrightarrow> hobby_item h \<and> str_strip h = h \<and> list_all (\<lambda>c. \<not> item_sep c) h"

declare skill_keywords_def [eval_simps] word_boundary_def [eval_simps] whole_word_at_def [eval_simps]
  search_word_def [eval_simps] item_sep_def [eval_simps] label_prefix_def [eval_simps]
  add_keyword_def [eval_simps] add_item_def [eval_simps] extract_skills_def [eval_simps]
  hobby_item_def [eval_simps] extract_hobbies_def [eval_simps] cert_keywords_def [eval_simps]
  extract_certifications_def [eval_simps]


subsection \<open>The vocabulary pass\<close>

lemma add_keyword_distinct: "distinct skills \<Longrightarrow> distinct (add_keyword t skills k)"
  by (simp add: add_keyword_def)

lemma foldl_add_keyword:
  "distinct ks \<Longrightarrow> set acc \<inter> set ks = {} \<Longrightarrow>
     foldl (add_keyword t) acc ks = acc @ filter (search_word t) ks"
proof (induction ks arbitrary: acc)
  case Nil
  then show ?case by simp
next
  case (Cons k ks)
  then have "k \<notin> set acc" and "k \<notin> set ks" by auto
  moreover have "set (add_keyword t acc k) \<inter> set ks = {}"
    using Cons.prems by (auto simp: add_keyword_def)
  ultimately show ?case using Cons by (simp add: add_keyword_def)
qed

subsection \<open>The token pass\<close>

lemma strip_no_sep:
  "list_all (\<lambda>c. \<not> item_sep c) raw \<Longrightarrow> list_all (\<lambda>c. \<not> item_sep c) (str_strip raw)"
  using set_str_strip[of raw] by (auto simp: list_all_iff)

lemma add_item_distinct: "distinct skills \<Longrightarrow> distinct (add_item skills raw)"
  by (simp add: add_item_def Let_def)

lemma add_item_token:
  assumes "list_all (\<lambda>c. \<not> item_sep c) raw"
  shows "\<exists>ys. add_item acc raw = acc @ ys \<and> list_all skill_token_ok ys"
proof (cases "add_item acc raw = acc")
  case True
  then show ?thesis by (intro exI[of _ "[]"]) simp
next
  case False
  then have "add_item acc raw = acc @ [str_strip raw]" and "2 < length (str_strip raw)"
    and "length (str_strip raw) < 50" and "\<not> label_prefix (str_strip raw)"
    by (auto simp: add_item_def Let_def split: if_splits)
  moreover have "list_all (\<lambda>c. \<not> item_sep c) (str_strip raw)" using assms by (rule strip_no_sep)
  ultimately show ?thesis
    by (intro exI[of _ "[str_strip raw]"]) (simp add: skill_token_ok_def)
qed

lemma foldl_add_item:
  "list_all (list_all (\<lambda>c. \<not> item_sep c)) items \<Longrightarrow>
     \<exists>xs. foldl add_item acc items = acc @ xs \<and> list_all skill_token_ok xs"
proof (induction items arbitrary: acc)
  case Nil
  then show ?case by simp
next
  case (Cons raw items)
  from Cons.prems have raw: "list_all (\<lambda>c. \<not> item_sep c) raw" by simp
  from add_item_token[OF raw, of acc] obtain ys
    where ys: "add_item acc raw = acc @ ys" "list_all skill_token_ok ys" by blast
  from Cons obtain xs where "foldl add_item (add_item acc raw) items = add_item acc raw @ xs"
      "list_all skill_token_ok xs" by auto
  with ys show ?case by (intro exI[of _ "ys @ xs"]) simp
qed

lemma foldl_item_lines:
  "\<exists>xs. foldl (\<lambda>skills line. foldl add_item skills (split_when item_sep line)) acc lines = acc @ xs
        \<and> list_all skill_token_ok xs"
proof (induction lines arbitrary: acc)
  case Nil
  then show ?case by simp
next
  case (Cons line lines)
  obtain ys where ys: "foldl add_item acc (split_when item_sep line) = acc @ ys"
      "list_all skill_token_ok ys"
    using foldl_add_item[OF split_when_pieces] by blast
  from Cons.IH obtain xs
    where "foldl (\<lambda>skills line. foldl add_item skills (split_when item_sep line)) (acc @ ys) lines
           = (acc @ ys) @ xs" "list_all skill_token_ok xs" by blast
  with ys show ?case by (intro exI[of _ "ys @ xs"]) simp
qed

lemma foldl_add_item_distinct: "distinct acc \<Longrightarrow> distinct (foldl add_item acc items)"
  by (induction items arbitrary: acc) (auto simp: add_item_distinct)

lemma foldl_item_lines_distinct:
  "distinct acc \<Longrightarrow>
     distinct (foldl (\<lambda>skills line. foldl add_item skills (split_when item_sep line)) acc lines)"
  by (induction lines arbitrary: acc) (auto simp: foldl_add_item_distinct)

lemma foldl_add_keyword_distinct: "distinct acc \<Longrightarrow> distinct (foldl (add_keyword tt) acc ks)"
  by (induction ks arbitrary: acc) (auto simp: add_keyword_distinct)

lemma distinct_skill_keywords: "distinct skill_keywords"
  by (simp add: skill_keywords_def)

lemma distinct_take_bound: "distinct xs \<Longrightarrow> distinct (take n xs) \<and> length (take n xs) \<le> n"
  by simp

subsection \<open>Skills\<close>

text \<open>
  C9: the skills list has no duplicates (compared case-sensitively, as the source's
  \<open>not in\<close> does) and at most thirty entries.
\<close>

theorem extract_skills_distinct:
  "distinct (extract_skills t) \<and> length (extract_skills t) \<le> 30"
  unfolding extract_skills_def Let_def
  by (intro distinct_take_bound foldl_item_lines_distinct foldl_add_keyword_distinct) simp

lemma extract_skills_decomp:
  "\<exists>tokens.
     extract_skills t =
       take 30 (filter (search_word
                  (let sec = extract_section t [''SKILLS'', ''TECHNICAL SKILLS'', ''COMPETENCIES'']
                   in if sec \<noteq> [] then sec else t)) skill_keywords @ tokens) \<and>
     list_all skill_token_ok tokens"
proof -
  define sec where "sec = extract_section t [''SKILLS'', ''TECHNICAL SKILLS'', ''COMPETENCIES'']"
  define tt where "tt = (if sec \<noteq> [] then sec else t)"
  define lines where "lines = (if sec \<noteq> [] then str_split sec ''\<newline>'' else [])"
  have v: "foldl (add_keyword tt) [] skill_keywords = filter (search_word tt) skill_keywords"
    using foldl_add_keyword[OF distinct_skill_keywords, of "[]" tt] by simp
  obtain xs where
    fx: "foldl (\<lambda>skills line. foldl add_item skills (split_when item_sep line))
       (filter (search_word tt) skill_keywords) lines
     = filter (search_word tt) skill_keywords @ xs" and ok: "list_all skill_token_ok xs"
    using foldl_item_lines by blast
  have "extract_skills t = take 30 (filter (search_word tt) skill_keywords @ xs)"
    unfolding extract_skills_def Let_def sec_def[symmetric] tt_def[symmetric] lines_def[symmetric]
    by (simp only: v fx)
  with ok show ?thesis unfolding Let_def sec_def[symmetric] tt_def[symmetric] by blast
qed

lemma set_add_item:
  "set (add_item skills raw) =
     set skills \<union> {i \<in> {str_strip raw}. 2 < length i \<and> length i < 50 \<and> \<not> label_prefix i}"
  by (auto simp: add_item_def Let_def)

lemma set_foldl_add_item:
  "set (foldl add_item acc items) =
     set acc \<union> {i \<in> str_strip ` set items. 2 < length i \<and> length i < 50 \<and> \<not> label_prefix i}"
  by (induction items arbitrary: acc) (auto simp: set_add_item)

lemma set_foldl_item_lines:
  "set (foldl (\<lambda>skills line. foldl add_item skills (split_when item_sep line)) acc lines) =
     set acc \<union> {i \<in> str_strip ` set (concat (map (split_when item_sep) lines)).
                  2 < length i \<and> length i < 50 \<and> \<not> label_prefix i}"
  by (induction lines arbitrary: acc) (auto simp: set_foldl_add_item)

text \<open>
  C10: the skills are the vocabulary entries that occur as whole words (ignoring case)
  in the SKILLS section, or in the whole text when there is no such section, in
  vocabulary order, followed by tokens that are stripped, contain no delimiter, have
  three to forty-nine characters and do not start with a section label; the list is cut
  at thirty. Before the cut, the entries are exactly the vocabulary hits and the items
  of the section's lines (split at the delimiters, stripped) that pass those filters;
  without a section there are no tokens.
\<close>

theorem extract_skills_shape:
  "let sec = extract_section t [''SKILLS'', ''TECHNICAL SKILLS'', ''COMPETENCIES''];
       hits = filter (search_word (if sec \<noteq> [] then sec else t)) skill_keywords;
       items = (if sec \<noteq> [] then concat (map (split_when item_sep) (str_split sec ''\<newline>'')) else [])
   in \<exists>tokens.
        extract_skills t = take 30 (hits @ tokens) \<and> list_all skill_token_ok tokens \<and>
        set (hits @ tokens) =
          set hits \<union> {i \<in> str_strip ` set items. 2 < length i \<and> length i < 50 \<and> \<not> label_prefix i}"
proof -
  define sec where "sec = extract_section t [''SKILLS'', ''TECHNICAL SKILLS'', ''COMPETENCIES'']"
  define hits where "hits = filter (search_word (if sec \<noteq> [] then sec else t)) skill_keywords"
  define lines where "lines = (if sec \<noteq> [] then str_split sec ''\<newline>'' else [])"
  have v: "foldl (add_keyword (if sec \<noteq> [] then sec else t)) [] skill_keywords = hits"
    using foldl_add_keyword[OF distinct_skill_keywords, of "[]"] by (simp add: hits_def)
  obtain xs where fx: "foldl (\<lambda>skills line. foldl add_item skills (split_when item_sep line)) hits lines = hits @ xs"
      and ok: "list_all skill_token_ok xs"
    using foldl_item_lines by blast
  have e: "extract_skills t = take 30 (hits @ xs)"
    unfolding extract_skills_def Let_def sec_def[symmetric] lines_def[symmetric] by (simp only: v fx)
  have "set (hits @ xs) = set hits \<union> {i \<in> str_strip ` set (concat (map (split_when item_sep) lines)).
                  2 < length i \<and> length i < 50 \<and> \<not> label_prefix i}"
    using set_foldl_item_lines[of hits lines] by (simp only: fx)
  moreover have "concat (map (split_when item_sep) lines) =
      (if sec \<noteq> [] then concat (map (split_when item_sep) (str_split sec ''\<newline>'')) else [])"
    by (simp add: lines_def)
  ultimately show ?thesis using e ok unfolding Let_def sec_def[symmetric] hits_def[symmetric] by auto
qed

text \<open>
  C27: every skill is a vocabulary entry or has at least three characters, so a short
  token of the SKILLS section that is not in the vocabulary is never kept: "Go" is
  never a skill, whatever the resume says.
\<close>

theorem extract_skills_short:
  "list_all (\<lambda>s. s \<in> set skill_keywords \<or> 3 \<le> length s) (extract_skills t) \<and>
   ''Go'' \<notin> set (extract_skills t)"
proof -
  obtain tt tokens where e: "extract_skills t = take 30 (filter (search_word tt) skill_keywords @ tokens)"
      and ok: "list_all skill_token_ok tokens"
    using extract_skills_decomp by blast
  have "list_all (\<lambda>s. s \<in> set skill_keywords \<or> 3 \<le> length s) (filter (search_word tt) skill_keywords @ tokens)"
    using ok by (auto simp: list_all_iff skill_token_ok_def)
  then have all: "list_all (\<lambda>s. s \<in> set skill_keywords \<or> 3 \<le> length s) (extract_skills t)"
    unfolding e by (auto simp: list_all_iff dest: in_set_takeD)
  moreover have "''Go'' \<notin> set skill_keywords" by (simp add: skill_keywords_def)
  ultimately show ?thesis by (auto simp: list_all_iff)
qed

subsection \<open>Hobbies and certifications\<close>

lemma hobby_line_ok:
  "list_all hobby_ok (filter hobby_item (map str_strip (split_when item_sep line)))"
proof -
  have "list_all (list_all (\<lambda>c. \<not> item_sep c)) (split_when item_sep line)"
    by (rule split_when_pieces)
  then have "list_all (list_all (\<lambda>c. \<not> item_sep c)) (map str_strip (split_when item_sep line))"
    by (induction "split_when item_sep line") (auto simp: list_all_iff strip_no_sep[unfolded list_all_iff])
  then show ?thesis by (auto simp: list_all_iff hobby_ok_def)
qed

text \<open>
  C11: every hobby is a stripped token of three to forty-nine characters without a
  delimiter, and there are at most ten.
\<close>

theorem extract_hobbies_ok:
  "list_all hobby_ok (extract_hobbies t) \<and> length (extract_hobbies t) \<le> 10"
proof -
  have "list_all hobby_ok (concat (map (\<lambda>line. filter hobby_item (map str_strip (split_when item_sep line))) ls))"
    for ls using hobby_line_ok by (induction ls) auto
  then show ?thesis unfolding extract_hobbies_def Let_def
    by (simp only: if_splits) (auto intro: list_all_take)
qed

text \<open>
  C30: every certification is a stripped line of the certifications section that still
  names a certification keyword, ignoring case (stripping never cuts a keyword, which
  has no spaces); there are at most ten.
\<close>

theorem extract_certifications_ok:
  "list_all (\<lambda>c. str_strip c = c \<and> ci_search_any cert_keywords c) (extract_certifications t) \<and>
   length (extract_certifications t) \<le> 10"
proof -
  have kw: "list_all (\<lambda>k. str_lower k \<noteq> [] \<and> list_all (\<lambda>c. \<not> is_space c) (str_lower k)) cert_keywords"
    by (simp add: cert_keywords_def eval_simps)
  have "ci_search_any cert_keywords (str_strip l)" if a: "ci_search_any cert_keywords l" for l
  proof -
    obtain k where k: "k \<in> set cert_keywords" "ci_contains l k"
      using a unfolding ci_search_any_def list_ex_iff by blast
    then have "str_lower k \<noteq> []" "list_all (\<lambda>c. \<not> is_space c) (str_lower k)"
      using kw by (simp_all add: list_all_iff)
    with k have "ci_contains (str_strip l) k" by (intro ci_contains_strip)
    with k show ?thesis unfolding ci_search_any_def list_ex_iff by blast
  qed
  then have "list_all (\<lambda>c. str_strip c = c \<and> ci_search_any cert_keywords c)
      (take 10 (map str_strip (filter (ci_search_any cert_keywords) ls)))" for ls
    by (auto simp: list_all_iff dest!: in_set_takeD)
  then show ?thesis by (simp add: extract_certifications_def Let_def)
qed

end
