(* ===== verification/Experience.thy ===== *)
theory Experience
  imports Segmenter Candidate
begin

text \<open>
  The experience extractor, \<open>ResumeProcessor._extract_experience\<close>
  (src/app/services/resume_processor.py, lines 114--154). Same loop as the education
  extractor over the EXPERIENCE section; the line handler \<open>exp_line\<close> sets the
  title and the company (first-writer-wins), the dates from the regex
  \<open>(\d{4}|\w+\s+\d{4})\<close>, and appends bullet lines to the description. At most
  ten records are kept.

  The source writes \<open>current_exp["end_date"] = dates[-1] if len(dates) > 1 else
  None\<close>: the key is then present with the value \<open>None\<close>, which blocks every later
  end date of the block. The extractor's dict is therefore the record \<open>exp_dict\<close>
  whose \<open>end_date\<close> is a \<open>string option option\<close>: \<open>None\<close> is "key absent",
  \<open>Some None\<close> is "key present, value None".
\<close>

record exp_dict =
  title :: "string option"
  company :: "string option"
  start_date :: "string option"
  end_date :: "string option option"
  description :: "string option"

definition title_keywords :: "string list" where
  "title_keywords = [''engineer'', ''developer'', ''manager'', ''analyst'', ''consultant'',
     ''specialist'', ''lead'', ''senior'', ''junior'']"

definition company_keywords :: "string list" where
  "company_keywords = [''inc.'', ''ltd.'', ''corp.'', ''company'', ''technologies'', ''systems'']"

definition title_match :: "string \<Rightarrow> bool" where
  "title_match line \<longleftrightarrow> ci_search_any title_keywords line"

definition company_match :: "string \<Rightarrow> bool" where
  "company_match line \<longleftrightarrow> ci_search_any company_keywords line"

definition digits4 :: "string \<Rightarrow> bool" where
  "digits4 s \<longleftrightarrow> 4 \<le> length s \<and> list_all is_digit (take 4 s)"

text \<open>
  \<open>re.findall(r"(\d{4}|\w+\s+\d{4})", line)\<close>. At each position the first
  alternative is tried first. In the second, \<open>\w+\<close> and \<open>\s+\<close> are greedy and
  giving characters back cannot help (a word character is not a space, a space is not a
  digit), so the maximal runs are the only candidates. A failed position moves the
  scan one character on.
\<close>

function findall_dates :: "string \<Rightarrow> string list" where
  "findall_dates s =
     (case s of
        [] \<Rightarrow> []
      | c # cs \<Rightarrow>
          if digits4 s then take 4 s # findall_dates (drop 4 s)
          else (let w = takeWhile is_word s;
                    r1 = drop (length w) s;
                    sp = takeWhile is_space r1;
                    r2 = drop (length sp) r1
                in if w \<noteq> [] \<and> sp \<noteq> [] \<and> digits4 r2
                   then (w @ sp @ take 4 r2) # findall_dates (drop 4 r2)
                   else findall_dates cs))"
  by pat_completeness auto
termination
  by (relation "measure length") auto

text \<open>
  \<open>line.startswith(("\<bullet>", "-", "*")) or re.match(r"^\d+\.", line)\<close>; the bullet
  U+2022 is \<open>bullet\<close>.
\<close>

definition bullet_start :: "string \<Rightarrow> bool" where
  "bullet_start line \<longleftrightarrow>
     str_startswith line [bullet] \<or> str_startswith line ''-'' \<or> str_startswith line ''*''"

definition numbered_start :: "string \<Rightarrow> bool" where
  "numbered_start line \<longleftrightarrow>
     (let ds = takeWhile is_digit line in ds \<noteq> [] \<and> str_startswith (drop (length ds) line) ''.'')"

definition empty_exp :: exp_dict where
  "empty_exp = \<lparr>title = None, company = None, exp_dict.start_date = None,
     exp_dict.end_date = None, exp_dict.description = None\<rparr>"

definition exp_empty :: "exp_dict \<Rightarrow> bool" where
  "exp_empty e \<longleftrightarrow> e = empty_exp"

text \<open>The body of the loop for a non-blank stripped line (lines 130--149).\<close>

definition exp_line :: "exp_dict \<Rightarrow> string \<Rightarrow> exp_dict" where
  "exp_line current_exp line =
     (let current_exp =
        (if title_match line \<and> title current_exp = None
         then current_exp\<lparr>title := Some line\<rparr> else current_exp);
      current_exp =
        (if company_match line \<and> company current_exp = None
         then current_exp\<lparr>company := Some line\<rparr> else current_exp);
      dates = findall_dates line;
      current_exp =
        (if dates \<noteq> []
         then (let current_exp =
                 (if exp_dict.end_date current_exp = None
                  then current_exp\<lparr>exp_dict.end_date :=
                         Some (if 1 < length dates then Some (last dates) else None)\<rparr>
                  else current_exp)
               in if exp_dict.start_date current_exp = None
                  then current_exp\<lparr>exp_dict.start_date := Some (hd dates)\<rparr> else current_exp)
         else current_exp)
      in if bullet_start line \<or> numbered_start line
         then (case exp_dict.description current_exp of
                 None \<Rightarrow> current_exp\<lparr>exp_dict.description := Some line\<rparr>
               | Some d \<Rightarrow> current_exp\<lparr>exp_dict.description := Some (d @ '' '' @ line)\<rparr>)
         else current_exp)"

definition extract_experience :: "string \<Rightarrow> exp_dict list" where
  "extract_experience text =
     (let exp_section = extract_section text [''EXPERIENCE'', ''WORK'', ''EMPLOYMENT'', ''PROFESSIONAL''];
          lines = str_split exp_section ''\<newline>''
      in take 10 (para_loop exp_empty empty_exp exp_line (map str_strip lines)))"

subsection \<open>Specification\<close>

text \<open>Appending the bullet lines of a block to a description, space separated.\<close>

definition join_onto :: "string option \<Rightarrow> string list \<Rightarrow> string option" where
  "join_onto d ls =
     (if ls = [] then d
      else Some (case d of None \<Rightarrow> str_join '' '' ls | Some x \<Rightarrow> x @ '' '' @ str_join '' '' ls))"

definition desc_line :: "string \<Rightarrow> bool" where
  "desc_line line \<longleftrightarrow> bullet_start line \<or> numbered_start line"

text \<open>
  A block's record without the fold: title and company are the first matching lines;
  both date keys are set from the first line with a date token, the end date to the
  last token only if that line has two or more; the description is the block's bullet
  lines joined by spaces.
\<close>

definition experience_of_block :: "string list \<Rightarrow> exp_dict" where
  "experience_of_block block =
     (let dated = find (\<lambda>l. findall_dates l \<noteq> []) block
      in \<lparr>title = find title_match block,
          company = find company_match block,
          exp_dict.start_date = map_option (\<lambda>l. hd (findall_dates l)) dated,
          exp_dict.end_date =
            map_option (\<lambda>l. if 1 < length (findall_dates l) then Some (last (findall_dates l)) else None) dated,
          exp_dict.description = join_onto None (filter desc_line block)\<rparr>)"

definition date_token :: "string \<Rightarrow> bool" where
  "date_token d \<longleftrightarrow> 4 \<le> length d \<and> list_all is_digit (drop (length d - 4) d)"

definition exp_entry_ok :: "exp_dict \<Rightarrow> bool" where
  "exp_entry_ok e \<longleftrightarrow>
     \<not> exp_empty e \<and>
     (exp_dict.start_date e = None) = (exp_dict.end_date e = None) \<and>
     pred_option date_token (exp_dict.start_date e) \<and>
     pred_option (pred_option date_token) (exp_dict.end_date e) \<and>
     pred_option title_match (title e) \<and> pred_option company_match (company e) \<and>
     pred_option desc_line (exp_dict.description e)"

declare title_keywords_def [eval_simps] company_keywords_def [eval_simps]
  title_match_def [eval_simps] company_match_def [eval_simps] digits4_def [eval_simps]
  bullet_start_def [eval_simps] numbered_start_def [eval_simps] empty_exp_def [eval_simps]
  exp_empty_def [eval_simps] exp_line_def [eval_simps] extract_experience_def [eval_simps]
  findall_dates.simps [eval_simps]

declare findall_dates.simps [simp del]


subsection \<open>Date tokens\<close>

lemma findall_dates_step:
  assumes "s \<noteq> []"
  shows "findall_dates s =
     (if digits4 s then take 4 s # findall_dates (drop 4 s)
      else (let w = takeWhile is_word s;
                r1 = drop (length w) s;
                sp = takeWhile is_space r1;
                r2 = drop (length sp) r1
            in if w \<noteq> [] \<and> sp \<noteq> [] \<and> digits4 r2
               then (w @ sp @ take 4 r2) # findall_dates (drop 4 r2)
               else findall_dates (tl s)))"
  using assms by (subst findall_dates.simps) (auto simp: Let_def split: list.split)

lemma findall_dates_tokens: "list_all date_token (findall_dates s)"
proof (induction s rule: findall_dates.induct)
  case (1 s)
  show ?case
  proof (cases "s = []")
    case True
    then show ?thesis by (simp add: findall_dates.simps)
  next
    case ne: False
    then obtain c cs where Cons: "s = c # cs" by (cases s) auto
    show ?thesis
    proof (cases "digits4 s")
      case True
      then have "date_token (take 4 s)" by (simp add: date_token_def digits4_def)
      with True ne "1.IH"(1)[OF Cons] show ?thesis by (simp add: findall_dates_step)
    next
      case False
      define w where "w = takeWhile is_word s"
      define sp where "sp = takeWhile is_space (drop (length w) s)"
      define r2 where "r2 = drop (length sp) (drop (length w) s)"
      have IH2: "w \<noteq> [] \<and> sp \<noteq> [] \<and> digits4 r2 \<Longrightarrow> list_all date_token (findall_dates (drop 4 r2))"
        using "1.IH"(2)[OF Cons False refl refl refl refl] by (simp add: w_def sp_def r2_def)
      have IH3: "\<not> (w \<noteq> [] \<and> sp \<noteq> [] \<and> digits4 r2) \<Longrightarrow> list_all date_token (findall_dates cs)"
        using "1.IH"(3)[OF Cons False refl refl refl refl] by (simp add: w_def sp_def r2_def)
      have step: "findall_dates s =
          (if w \<noteq> [] \<and> sp \<noteq> [] \<and> digits4 r2 then (w @ sp @ take 4 r2) # findall_dates (drop 4 r2)
           else findall_dates cs)"
        using findall_dates_step[OF ne] False Cons by (simp add: w_def sp_def r2_def Let_def)
      show ?thesis
      proof (cases "w \<noteq> [] \<and> sp \<noteq> [] \<and> digits4 r2")
        case True
        then have "date_token (w @ sp @ take 4 r2)" by (simp add: date_token_def digits4_def)
        with True IH2 step show ?thesis by simp
      next
        case nomatch: False
        with IH3 step show ?thesis by simp
      qed
    qed
  qed
qed

subsection \<open>One block\<close>

lemma exp_line_fields:
  "title (exp_line c l) = (if title_match l \<and> title c = None then Some l else title c)"
  "company (exp_line c l) = (if company_match l \<and> company c = None then Some l else company c)"
  "exp_dict.start_date (exp_line c l) =
     (if findall_dates l \<noteq> [] \<and> exp_dict.start_date c = None
      then Some (hd (findall_dates l)) else exp_dict.start_date c)"
  "exp_dict.end_date (exp_line c l) =
     (if findall_dates l \<noteq> [] \<and> exp_dict.end_date c = None
      then Some (if 1 < length (findall_dates l) then Some (last (findall_dates l)) else None)
      else exp_dict.end_date c)"
  "exp_dict.description (exp_line c l) =
     (if desc_line l
      then Some (case exp_dict.description c of None \<Rightarrow> l | Some d \<Rightarrow> d @ '' '' @ l)
      else exp_dict.description c)"
  by (simp_all add: exp_line_def Let_def desc_line_def split: option.split)

lemma join_onto_step:
  "join_onto (Some (case d of None \<Rightarrow> l | Some x \<Rightarrow> x @ '' '' @ l)) ls = join_onto d (l # ls)"
  by (cases d) (auto simp: join_onto_def str_join_Cons)

lemma foldl_exp_title:
  "title (foldl exp_line c block) = first_writer (title c) (find title_match block)"
  by (induction block arbitrary: c) (simp_all add: exp_line_fields first_writer_def split: option.splits)

lemma foldl_exp_company:
  "company (foldl exp_line c block) = first_writer (company c) (find company_match block)"
  by (induction block arbitrary: c) (simp_all add: exp_line_fields first_writer_def split: option.splits)

lemma foldl_exp_start:
  "exp_dict.start_date (foldl exp_line c block) = first_writer (exp_dict.start_date c)
     (map_option (\<lambda>l. hd (findall_dates l)) (find (\<lambda>l. findall_dates l \<noteq> []) block))"
  by (induction block arbitrary: c) (simp_all add: exp_line_fields first_writer_def split: option.splits)

lemma foldl_exp_end:
  "exp_dict.end_date (foldl exp_line c block) = first_writer (exp_dict.end_date c)
     (map_option (\<lambda>l. if 1 < length (findall_dates l) then Some (last (findall_dates l)) else None)
       (find (\<lambda>l. findall_dates l \<noteq> []) block))"
  by (induction block arbitrary: c) (simp_all add: exp_line_fields first_writer_def split: option.splits)

lemma foldl_exp_description:
  "exp_dict.description (foldl exp_line c block) =
     join_onto (exp_dict.description c) (filter desc_line block)"
proof (induction block arbitrary: c)
  case Nil
  then show ?case by (simp add: join_onto_def)
next
  case (Cons l ls)
  then show ?case by (simp add: exp_line_fields join_onto_step)
qed

lemmas foldl_exp_line_fields =
  foldl_exp_title foldl_exp_company foldl_exp_start foldl_exp_end foldl_exp_description

lemma foldl_exp_line_empty: "foldl exp_line empty_exp = experience_of_block"
proof
  fix block
  show "foldl exp_line empty_exp block = experience_of_block block"
    by (rule exp_dict.equality)
       (simp_all add: foldl_exp_line_fields empty_exp_def experience_of_block_def Let_def)
qed


subsection \<open>Records\<close>

lemma numbered_start_append: "numbered_start x \<Longrightarrow> numbered_start (x @ y)"
proof -
  assume n: "numbered_start x"
  let ?ds = "takeWhile is_digit x"
  from n have ne: "?ds \<noteq> []" and dot: "str_startswith (drop (length ?ds) x) ''.''"
    by (auto simp: numbered_start_def Let_def)
  from dot obtain r where r: "drop (length ?ds) x = CHR ''.'' # r"
    by (cases "drop (length ?ds) x") (auto simp: str_startswith_def)
  have "x = ?ds @ CHR ''.'' # r" using r by (metis append_take_drop_id takeWhile_eq_take)
  moreover have "\<not> is_digit (CHR ''.'')" by (simp add: is_digit_def)
  ultimately have tw: "takeWhile is_digit (x @ y) = ?ds"
    by (metis append.assoc append_Cons takeWhile_append2 takeWhile_tail takeWhile_idem
        set_takeWhileD)
  have dr: "drop (length ?ds) (x @ y) = CHR ''.'' # r @ y"
    using r by (simp add: length_takeWhile_le)
  show ?thesis unfolding numbered_start_def Let_def str_startswith_def
    by (simp only: tw dr) (simp add: ne)
qed

lemma desc_line_append: "desc_line x \<Longrightarrow> desc_line (x @ y)"
  by (auto simp: desc_line_def bullet_start_def intro: str_startswith_append numbered_start_append)

lemma join_onto_None_pred:
  assumes closed: "\<And>x y. P x \<Longrightarrow> P (x @ y)" and all: "list_all P ls"
  shows "pred_option P (join_onto None ls)"
proof (cases ls)
  case (Cons x xs)
  with all have "P x" by simp
  then have "P (str_join '' '' (x # xs))"
    by (cases xs) (auto simp: str_join_Cons intro: closed)
  with Cons show ?thesis by (simp add: join_onto_def)
qed (simp add: join_onto_def)

lemma experience_of_block_ok:
  "\<not> exp_empty (experience_of_block bl) \<Longrightarrow> exp_entry_ok (experience_of_block bl)"
proof -
  assume ne: "\<not> exp_empty (experience_of_block bl)"
  let ?d = "find (\<lambda>l. findall_dates l \<noteq> []) bl"
  have dated: "pred_option (\<lambda>l. findall_dates l \<noteq> []) ?d" by (rule find_pred)
  have toks: "list_all date_token (findall_dates l)" for l by (rule findall_dates_tokens)
  have "pred_option date_token (map_option (\<lambda>l. hd (findall_dates l)) ?d)"
  proof (cases ?d)
    case (Some l)
    with dated have "hd (findall_dates l) \<in> set (findall_dates l)" by simp
    with Some toks[of l] show ?thesis by (simp add: list_all_iff)
  qed simp
  moreover have "pred_option (pred_option date_token)
      (map_option (\<lambda>l. if 1 < length (findall_dates l) then Some (last (findall_dates l)) else None) ?d)"
  proof (cases ?d)
    case (Some l)
    with dated have "last (findall_dates l) \<in> set (findall_dates l)" by simp
    with Some toks[of l] show ?thesis by (simp add: list_all_iff)
  qed simp
  moreover have "pred_option desc_line (join_onto None (filter desc_line bl))"
    by (rule join_onto_None_pred[where P = desc_line]) (simp_all add: desc_line_append list_all_iff)
  ultimately show ?thesis
    using ne find_pred[of title_match bl] find_pred[of company_match bl]
    by (simp add: exp_entry_ok_def experience_of_block_def Let_def)
qed

text \<open>
  C7: the experience loop computes, in order, one record per blank-line separated
  block of stripped lines of the EXPERIENCE section, parsed on its own, keeps the
  non-empty ones and truncates to ten.
\<close>

theorem extract_experience_blocks:
  "extract_experience t =
     take 10 (filter (\<lambda>e. \<not> exp_empty e)
       (map experience_of_block
         (split_when (\<lambda>l. l = [])
           (map str_strip (str_split (extract_section t [''EXPERIENCE'', ''WORK'', ''EMPLOYMENT'', ''PROFESSIONAL''])
              ''\<newline>'')))))"
proof -
  have "\<And>c. exp_empty c \<Longrightarrow> c = empty_exp" by (simp add: exp_empty_def)
  then show ?thesis unfolding extract_experience_def Let_def
    by (simp only: para_loop_blocks foldl_exp_line_empty)
qed

text \<open>
  C8: every extracted experience record is non-empty; its start date is set exactly
  when its end date key is; dates are tokens ending in four digits (the end date
  possibly an explicit \<open>None\<close>); title and company are lines with a title or company
  keyword; a description starts with a bullet or a number and a dot. There are at most
  ten records.
\<close>

theorem extract_experience_ok:
  "list_all exp_entry_ok (extract_experience t) \<and> length (extract_experience t) \<le> 10"
proof -
  have "list_all exp_entry_ok (filter (\<lambda>e. \<not> exp_empty e) (map experience_of_block bs))" for bs
    by (induction bs) (auto intro: experience_of_block_ok)
  then have H: "list_all exp_entry_ok (take 10 (filter (\<lambda>e. \<not> exp_empty e) (map experience_of_block bs)))"
    for bs by blast
  have "\<And>c. exp_empty c \<Longrightarrow> c = empty_exp" by (simp add: exp_empty_def)
  then show ?thesis unfolding extract_experience_def Let_def
    by (simp only: para_loop_blocks foldl_exp_line_empty H) simp
qed

end
