(* ===== verification/Projects.thy ===== *)
theory Projects
  imports Experience "HOL-Library.AList"
begin

text \<open>
  \<open>_extract_projects\<close> (src/app/services/resume_processor.py, lines 216--244) and
  \<open>_extract_introduction\<close> (lines 246--255). A project is the schema-less dict of the
  source, an association list in insertion order; \<open>d[k] = v\<close> is \<open>AList.update\<close>,
  which keeps the position of an existing key and appends a new one, as a Python dict
  does, and \<open>k in d\<close> is \<open>map_of d k \<noteq> None\<close>. The loop is the shared
  \<open>para_loop\<close>; the empty project is \<open>[]\<close>.

  Main facts: every project has distinct keys among \<open>name\<close> and
  \<open>description\<close>, a name shorter than 100 characters and a description that starts
  with a bullet, there are at most ten (\<open>extract_projects_ok\<close>); the introduction is
  the first 500 characters of the summary section's first paragraph, or, without such a
  section, of the joined non-blank lines among the first five
  (\<open>extract_introduction_first_paragraph\<close>).
\<close>

text \<open>
  The body of the projects loop for a non-blank stripped line (lines 232--239). The
  bullet test is the one of the experience extractor without the numbered form.
\<close>

definition proj_line :: "project \<Rightarrow> string \<Rightarrow> project" where
  "proj_line current_project line =
     (let current_project =
        (if map_of current_project ''name'' = None \<and> length line < 100
         then AList.update ''name'' line current_project else current_project)
      in if bullet_start line
         then (case map_of current_project ''description'' of
                 None \<Rightarrow> AList.update ''description'' line current_project
               | Some d \<Rightarrow> AList.update ''description'' (d @ '' '' @ line) current_project)
         else current_project)"

definition extract_projects :: "string \<Rightarrow> project list" where
  "extract_projects text =
     (let project_section = extract_section text [''PROJECTS'', ''PROJECT''];
          lines = (if project_section \<noteq> [] then str_split project_section ''\<newline>'' else [])
      in take 10 (para_loop (\<lambda>p. p = []) [] proj_line (map str_strip lines)))"

definition extract_introduction :: "string \<Rightarrow> string" where
  "extract_introduction text =
     (let intro_section =
        extract_section text [''SUMMARY'', ''OBJECTIVE'', ''INTRODUCTION'', ''PROFILE'', ''ABOUT'']
      in if intro_section \<noteq> [] \<and> str_split intro_section ''\<newline>\<newline>'' \<noteq> []
         then take 500 (hd (str_split intro_section ''\<newline>\<newline>''))
         else take 500 (str_join '' '' (filter (\<lambda>l. l \<noteq> []) (map str_strip (take 5 (str_split text ''\<newline>''))))))"

subsection \<open>Specification\<close>

definition proj_ok :: "project \<Rightarrow> bool" where
  "proj_ok p \<longleftrightarrow>
     p \<noteq> [] \<and> distinct (map fst p) \<and> set (map fst p) \<subseteq> {''name'', ''description''} \<and>
     pred_option (\<lambda>n. length n < 100) (map_of p ''name'') \<and>
     pred_option bullet_start (map_of p ''description'')"

declare proj_line_def [eval_simps] extract_projects_def [eval_simps]
  extract_introduction_def [eval_simps]

subsection \<open>Projects\<close>

lemma proj_line_keys:
  "set (map fst (proj_line p l)) \<subseteq> set (map fst p) \<union> {''name'', ''description''}"
  by (auto simp: proj_line_def Let_def image_set[symmetric] dom_update split: option.splits)


lemma proj_line_distinct: "distinct (map fst p) \<Longrightarrow> distinct (map fst (proj_line p l))"
  by (simp add: proj_line_def Let_def distinct_update split: option.splits)

lemma update_not_Nil [simp]: "AList.update k v al \<noteq> []"
  by (induction al) auto

lemma proj_line_name:
  "map_of (proj_line p l) ''name'' = first_writer (map_of p ''name'') (if length l < 100 then Some l else None)"
  by (cases "map_of p ''name''") (auto simp: proj_line_def Let_def update_conv' first_writer_def split: option.splits)

lemma proj_line_description:
  "map_of (proj_line p l) ''description'' =
     (if bullet_start l then Some (case map_of p ''description'' of None \<Rightarrow> l | Some d \<Rightarrow> d @ '' '' @ l)
      else map_of p ''description'')"
  by (simp add: proj_line_def Let_def update_conv' split: option.splits)

lemma foldl_proj_name:
  "map_of (foldl proj_line p block) ''name'' = first_writer (map_of p ''name'') (find (\<lambda>l. length l < 100) block)"
  by (induction block arbitrary: p) (simp_all add: proj_line_name first_writer_def split: option.splits)

lemma foldl_proj_description:
  "map_of (foldl proj_line p block) ''description'' = join_onto (map_of p ''description'') (filter bullet_start block)"
proof (induction block arbitrary: p)
  case Nil
  then show ?case by (simp add: join_onto_def)
next
  case (Cons l ls)
  then show ?case by (simp add: proj_line_description join_onto_step)
qed

lemma foldl_proj_keys:
  "distinct (map fst p) \<and> set (map fst p) \<subseteq> {''name'', ''description''} \<Longrightarrow>
     distinct (map fst (foldl proj_line p block)) \<and>
     set (map fst (foldl proj_line p block)) \<subseteq> {''name'', ''description''}"
proof (induction block arbitrary: p)
  case Nil
  then show ?case by simp
next
  case (Cons l ls)
  have "distinct (map fst (proj_line p l))" using Cons.prems proj_line_distinct by blast
  moreover have "set (map fst (proj_line p l)) \<subseteq> {''name'', ''description''}"
    using Cons.prems proj_line_keys by blast
  ultimately show ?case using Cons.IH by simp
qed

lemma bullet_start_append: "bullet_start x \<Longrightarrow> bullet_start (x @ y)"
  by (auto simp: bullet_start_def intro: str_startswith_append)

lemma project_of_block_ok:
  "foldl proj_line [] bl \<noteq> [] \<Longrightarrow> proj_ok (foldl proj_line [] bl)"
proof -
  assume ne: "foldl proj_line [] bl \<noteq> []"
  have "pred_option bullet_start (join_onto None (filter bullet_start bl))"
    by (rule join_onto_None_pred[where P = bullet_start]) (simp_all add: bullet_start_append list_all_iff)
  moreover have "pred_option (\<lambda>n. length n < 100) (find (\<lambda>l. length l < 100) bl)"
    by (rule find_pred)
  ultimately show ?thesis
    using ne foldl_proj_keys[of "[]" bl]
    by (simp add: proj_ok_def foldl_proj_name foldl_proj_description)
qed

text \<open>
  C12: every extracted project is a non-empty dict whose keys are distinct and among
  \<open>name\<close> and \<open>description\<close>, whose name is shorter than 100 characters and
  whose description starts with a bullet; there are at most ten projects.
\<close>

theorem extract_projects_ok:
  "list_all proj_ok (extract_projects t) \<and> length (extract_projects t) \<le> 10"
proof -
  have blocks: "para_loop (\<lambda>p. p = []) [] proj_line ls =
      filter (\<lambda>r. r \<noteq> []) (map (foldl proj_line []) (split_when (\<lambda>l. l = []) ls))" for ls
    by (rule para_loop_blocks) simp
  have "list_all proj_ok (filter (\<lambda>r. r \<noteq> []) (map (foldl proj_line []) bs))" for bs
    by (induction bs) (auto intro: project_of_block_ok)
  then have "list_all proj_ok (take 10 (para_loop (\<lambda>p. p = []) [] proj_line ls))" for ls
    by (simp only: blocks) blast
  then show ?thesis unfolding extract_projects_def Let_def by simp
qed

subsection \<open>Introduction\<close>

text \<open>
  C13: when there is a summary section, the introduction is the first 500 characters of
  its first paragraph, the text before its first blank line (\<open>\n\n\<close>), and so
  contains no blank line; otherwise it is the first 500 characters of the non-blank
  lines among the first five lines of the text, stripped and joined by spaces, and
  contains no newline.
\<close>

theorem extract_introduction_first_paragraph:
  "let sec = extract_section t [''SUMMARY'', ''OBJECTIVE'', ''INTRODUCTION'', ''PROFILE'', ''ABOUT''];
       intro = extract_introduction t
   in if sec \<noteq> []
      then intro = take 500 (case str_find sec ''\<newline>\<newline>'' of None \<Rightarrow> sec | Some j \<Rightarrow> take j sec) \<and>
           \<not> sublist ''\<newline>\<newline>'' intro
      else intro = take 500 (str_join '' '' (filter (\<lambda>l. l \<noteq> []) (map str_strip (take 5 (str_split t ''\<newline>''))))) \<and>
           CHR ''\<newline>'' \<notin> set intro"
proof -
  define sec where "sec = extract_section t [''SUMMARY'', ''OBJECTIVE'', ''INTRODUCTION'', ''PROFILE'', ''ABOUT'']"
  define para where "para = (case str_find sec ''\<newline>\<newline>'' of None \<Rightarrow> sec | Some j \<Rightarrow> take j sec)"
  have split_ne: "str_split sec ''\<newline>\<newline>'' \<noteq> []"
    by (subst str_split.simps) (simp split: option.splits)
  have hd: "hd (str_split sec ''\<newline>\<newline>'') = para"
    unfolding para_def by (rule hd_str_split) simp
  have "\<not> sublist ''\<newline>\<newline>'' para"
  proof (cases "str_find sec ''\<newline>\<newline>''")
    case None
    then show ?thesis using str_contains_iff_sublist[of sec "''\<newline>\<newline>''"]
      by (simp add: para_def str_contains_def)
  next
    case (Some j)
    then show ?thesis using str_find_no_sublist_before[OF Some] by (simp add: para_def)
  qed
  then have no_para: "\<not> sublist ''\<newline>\<newline>'' (take 500 para)"
    using prefix_imp_sublist sublist_order.order.trans take_is_prefix by blast
  define fb where "fb = str_join '' '' (filter (\<lambda>l. l \<noteq> []) (map str_strip (take 5 (str_split t ''\<newline>''))))"
  have "CHR ''\<newline>'' \<notin> set fb"
  proof
    assume "CHR ''\<newline>'' \<in> set fb"
    then have "CHR ''\<newline>'' \<in> \<Union> (set ` set (filter (\<lambda>l. l \<noteq> []) (map str_strip (take 5 (str_split t ''\<newline>'')))))"
      using set_str_join[of "'' ''" "filter (\<lambda>l. l \<noteq> []) (map str_strip (take 5 (str_split t ''\<newline>'')))"]
      unfolding fb_def by auto
    then obtain l where "l \<in> set (take 5 (str_split t ''\<newline>''))" "CHR ''\<newline>'' \<in> set (str_strip l)"
      by auto
    then show False using set_str_strip[of l] str_split_single_pieces[of l t "CHR ''\<newline>''"]
      by (auto dest: in_set_takeD)
  qed
  then have no_fb: "CHR ''\<newline>'' \<notin> set (take 500 fb)" by (auto dest: in_set_takeD)
  show ?thesis
    unfolding extract_introduction_def Let_def sec_def[symmetric] para_def[symmetric] fb_def[symmetric]
    using split_ne hd no_para no_fb by simp
qed

end
