(* ===== verification/Resume.thy ===== *)
theory Resume
  imports Education Skills Projects
begin

text \<open>
  The pipeline of \<open>ResumeProcessor\<close> (src/app/services/resume_processor.py):
  \<open>extract_text\<close> (lines 24--42), the text extraction adapter, and
  \<open>process_resume\<close> (lines 44--69), which runs the seven extractors on the text.

  The PDF and DOCX readers (PyPDF2, python-docx) are library code: the model takes
  them as parameters, a reader returning the page texts or paragraph texts of a file,
  or \<open>None\<close> when the library raises. \<open>file_content\<close> is a byte string, written
  as a list of 8-bit \<open>char\<close>s. The NER pipeline of \<open>process_resume\<close> is run on
  the text but its entities are never used, so it does not appear in the model; its
  exceptions are caught and printed, so it cannot make the call fail.
\<close>

type_synonym bytes = "char list"

text \<open>
  The failures of \<open>extract_text\<close>; the source wraps both in
  \<open>Exception(f"Error extracting text: {e}")\<close>.
\<close>

datatype text_error = Unsupported_file_type string | Reader_failed

definition extract_text ::
  "(bytes \<Rightarrow> string list option) \<Rightarrow> (bytes \<Rightarrow> string list option) \<Rightarrow> bytes \<Rightarrow> string
   \<Rightarrow> text_error + string" where
  "extract_text pdf_pages docx_paragraphs file_content file_ext =
     (if file_ext = ''.pdf''
      then (case pdf_pages file_content of
              None \<Rightarrow> Inl Reader_failed
            | Some pages \<Rightarrow> Inr (foldl (\<lambda>text page. text @ page @ ''\<newline>'') [] pages))
      else if file_ext = ''.docx''
      then (case docx_paragraphs file_content of
              None \<Rightarrow> Inl Reader_failed
            | Some paragraphs \<Rightarrow> Inr (str_join ''\<newline>'' paragraphs))
      else Inl (Unsupported_file_type file_ext))"

text \<open>The dict \<open>candidate_data\<close> built by \<open>process_resume\<close>.\<close>

record resume_data =
  education :: "education list"
  experience :: "exp_dict list"
  skills :: "string list"
  hobbies :: "string list"
  certifications :: "string list"
  projects :: "project list"
  introduction :: string

definition process_resume :: "string \<Rightarrow> resume_data" where
  "process_resume resume_text =
     \<lparr>resume_data.education = extract_education resume_text,
      resume_data.experience = extract_experience resume_text,
      resume_data.skills = extract_skills resume_text,
      resume_data.hobbies = extract_hobbies resume_text,
      resume_data.certifications = extract_certifications resume_text,
      resume_data.projects = extract_projects resume_text,
      resume_data.introduction = extract_introduction resume_text\<rparr>"

declare extract_text_def [eval_simps] process_resume_def [eval_simps]

subsection \<open>The adapter\<close>

text \<open>
  C14: \<open>extract_text\<close> fails with an unsupported-type error exactly for the
  extensions other than \<open>.pdf\<close> and \<open>.docx\<close>, whatever the readers do.
\<close>

theorem extract_text_unsupported:
  "(\<exists>e. extract_text pdf_pages docx_paragraphs file_content file_ext = Inl (Unsupported_file_type e))
   \<longleftrightarrow> file_ext \<noteq> ''.pdf'' \<and> file_ext \<noteq> ''.docx''"
  by (auto simp: extract_text_def split: option.splits)

end
