(* ===== verification/Store.thy ===== *)
theory Store
  imports Resume
begin

text \<open>
  The candidate store, \<open>MongoDBService\<close> (src/app/services/mongodb_service.py). The
  \<open>candidates\<close> collection is the list of its documents in natural order, the order
  \<open>find\<close> returns them in; \<open>_id\<close> is left out because every read deletes it.
  A document is the dict \<open>save_candidate\<close> builds: the seven fields of
  \<open>process_resume\<close> (the record \<open>resume_data\<close>) extended with
  \<open>candidate_id\<close>. The database is assumed reachable: the driver's failures, which
  the source wraps in \<open>Exception\<close>, are not modelled.

  \<open>update_one(filter, {"$set": doc}, upsert=True)\<close> changes the first matching
  document, and \<open>$set\<close> of all eight fields makes it equal to \<open>doc\<close>; with
  no match it inserts \<open>doc\<close> at the end (\<open>update_one\<close> below).
  \<open>Candidate(**doc)\<close> turns the extractor's experience dicts into
  \<open>Experience\<close> models, an explicit \<open>None\<close> end date and an absent one both
  becoming \<open>None\<close> (\<open>to_experience\<close>).

  Main facts: the abstract store, the map from ids to documents, of an upsert is the
  old one updated at the document's id (\<open>save_candidate_refines\<close>); upserts keep the ids
  distinct; a read after a save returns the saved candidate and the summaries list one
  entry per id in insertion order.
\<close>

record candidate_doc = resume_data +
  candidate_id :: string

type_synonym collection = "candidate_doc list"

definition doc_id :: "candidate_doc \<Rightarrow> string" where
  "doc_id d = candidate_doc.candidate_id d"

text \<open>\<open>collection.update_one({"candidate_id": id}, {"$set": doc}, upsert=True)\<close>.\<close>

fun update_one :: "candidate_doc \<Rightarrow> collection \<Rightarrow> collection" where
  "update_one doc [] = [doc]"
| "update_one doc (d # ds) = (if doc_id d = doc_id doc then doc # ds else d # update_one doc ds)"

text \<open>\<open>save_candidate\<close> (lines 17--39): upsert, then return the document.\<close>

definition save_candidate :: "candidate_doc \<Rightarrow> collection \<Rightarrow> candidate_doc \<times> collection" where
  "save_candidate candidate_doc coll = (candidate_doc, update_one candidate_doc coll)"

text \<open>\<open>collection.find_one({"candidate_id": id})\<close>: the first match in natural order.\<close>

definition find_one :: "string \<Rightarrow> collection \<Rightarrow> candidate_doc option" where
  "find_one cid coll = find (\<lambda>d. doc_id d = cid) coll"

text \<open>The validation of \<open>Candidate(**doc)\<close> (line 50) on a stored document.\<close>

definition to_experience :: "exp_dict \<Rightarrow> experience" where
  "to_experience e =
     experience.make (exp_dict.title e) (exp_dict.company e) (exp_dict.start_date e)
       (case exp_dict.end_date e of None \<Rightarrow> None | Some x \<Rightarrow> x) (exp_dict.description e) None"

definition to_candidate :: "candidate_doc \<Rightarrow> candidate" where
  "to_candidate d =
     candidate.make (candidate_doc.candidate_id d) (resume_data.education d)
       (map to_experience (resume_data.experience d)) (resume_data.skills d)
       (resume_data.hobbies d) (resume_data.certifications d) (resume_data.projects d)
       (resume_data.introduction d)"

text \<open>\<open>get_candidate_by_id\<close> (lines 41--53).\<close>

definition get_candidate_by_id :: "collection \<Rightarrow> string \<Rightarrow> candidate option" where
  "get_candidate_by_id coll cid = map_option to_candidate (find_one cid coll)"

text \<open>The \<open>CandidateSummary\<close> built for one document (lines 65--71).\<close>

definition summary_of :: "candidate_doc \<Rightarrow> candidate_summary" where
  "summary_of doc =
     candidate_summary.make (candidate_doc.candidate_id doc) (take 200 (resume_data.introduction doc))
       (take 10 (resume_data.skills doc)) (length (resume_data.experience doc))
       (length (resume_data.education doc))"

definition get_all_candidates_summary :: "collection \<Rightarrow> candidate_summary list" where
  "get_all_candidates_summary coll = map summary_of coll"

subsection \<open>Specification\<close>

text \<open>The persistence contract of the design: a finite map from ids to records.\<close>

definition abs_store :: "collection \<Rightarrow> string \<rightharpoonup> candidate_doc" where
  "abs_store coll = map_of (map (\<lambda>d. (doc_id d, d)) coll)"

definition store_ok :: "collection \<Rightarrow> bool" where
  "store_ok coll \<longleftrightarrow> distinct (map doc_id coll)"

declare doc_id_def [eval_simps] save_candidate_def [eval_simps] find_one_def [eval_simps]
  to_experience_def [eval_simps] to_candidate_def [eval_simps] get_candidate_by_id_def [eval_simps]
  summary_of_def [eval_simps] get_all_candidates_summary_def [eval_simps]

subsection \<open>Upsert\<close>

lemma update_one_ids:
  "map doc_id (update_one doc coll) =
     (if doc_id doc \<in> set (map doc_id coll) then map doc_id coll else map doc_id coll @ [doc_id doc])"
  by (induction coll) auto

lemma update_one_abs:
  "map_of (map (\<lambda>d. (doc_id d, d)) (update_one doc coll)) =
     (map_of (map (\<lambda>d. (doc_id d, d)) coll))(doc_id doc \<mapsto> doc)"
  by (induction coll) (auto simp: fun_eq_iff)

lemma update_one_ok: "store_ok coll \<Longrightarrow> store_ok (update_one doc coll)"
  by (simp add: store_ok_def update_one_ids)

lemma find_one_abs: "find_one cid coll = abs_store coll cid"
  by (induction coll) (auto simp: find_one_def abs_store_def)

lemma summary_of_bounds:
  "length (candidate_summary.introduction (summary_of d)) \<le> 200 \<and>
   length (candidate_summary.skills (summary_of d)) \<le> 10"
  by (simp add: summary_of_def candidate_summary.defs)

lemma update_one_set: "set (update_one d coll) \<subseteq> insert d (set coll)"
  by (induction coll) auto

lemma get_candidate_by_id_update:
  "get_candidate_by_id (update_one d coll) cid =
     (if cid = doc_id d then Some (to_candidate d) else get_candidate_by_id coll cid)"
  by (simp add: get_candidate_by_id_def find_one_abs abs_store_def update_one_abs)

lemma summary_ids: "map (candidate_summary.candidate_id \<circ> summary_of) c = map doc_id c"
  by (simp add: summary_of_def doc_id_def candidate_summary.defs)

subsection \<open>Properties of the store\<close>

text \<open>
  C19: saving a candidate refines the persistence contract: it returns the document,
  and the store, read as a map from ids to documents, is the old one with the
  document's id mapped to it (last writer wins, whatever was stored before).
\<close>

theorem save_candidate_refines:
  "fst (save_candidate d coll) = d \<and>
   abs_store (snd (save_candidate d coll)) = (abs_store coll)(doc_id d \<mapsto> d)"
  by (simp add: save_candidate_def abs_store_def update_one_abs)

text \<open>
  C20: a read after a save returns the saved candidate for its id and what was stored
  before for every other id.
\<close>

theorem save_then_get:
  "get_candidate_by_id (snd (save_candidate d coll)) cid =
     (if cid = doc_id d then Some (to_candidate d) else get_candidate_by_id coll cid)"
  by (simp add: save_candidate_def get_candidate_by_id_update)

text \<open>
  C21: the summaries list the stored ids in insertion order, a re-saved id keeping its
  place and a new one coming last, each summary with at most 200 characters of
  introduction and at most 10 skills; the ids stay distinct.
\<close>

theorem summaries_after_save:
  "map candidate_summary.candidate_id (get_all_candidates_summary (snd (save_candidate d coll))) =
     (if doc_id d \<in> set (map doc_id coll) then map doc_id coll else map doc_id coll @ [doc_id d]) \<and>
   list_all (\<lambda>s. length (candidate_summary.introduction s) \<le> 200 \<and>
                 length (candidate_summary.skills s) \<le> 10)
     (get_all_candidates_summary (snd (save_candidate d coll))) \<and>
   (store_ok coll \<longrightarrow> store_ok (snd (save_candidate d coll)))"
  using update_one_ids[of d coll]
  by (simp add: get_all_candidates_summary_def save_candidate_def summary_ids update_one_ok
      list_all_iff summary_of_bounds)

theorem summaries_after_save_witness:
  "store_ok [candidate_doc.make [] [] [] [] [] [] [] ''a''] \<and>
   map candidate_summary.candidate_id (get_all_candidates_summary
     (snd (save_candidate (candidate_doc.make [] [] [] [] [] [] [] ''b'') [candidate_doc.make [] [] [] [] [] [] [] ''a'']))) =
     [''a'', ''b''] \<and>
   store_ok (snd (save_candidate (candidate_doc.make [] [] [] [] [] [] [] ''b'') [candidate_doc.make [] [] [] [] [] [] [] ''a'']))"
  using summaries_after_save[of "candidate_doc.make [] [] [] [] [] [] [] ''b''" "[candidate_doc.make [] [] [] [] [] [] [] ''a'']"]
  by (simp add: store_ok_def doc_id_def candidate_doc.defs)

end
