(* ===== verification/Blob.thy ===== *)
theory Blob
  imports Resume
begin

text \<open>
  The blob store, \<open>SupabaseService.upload_file\<close>
  (src/app/services/supabase_service.py, lines 18--54). The state is the storage bucket,
  the list of stored objects by path, and the \<open>resume_uploads\<close> table, the list of
  inserted metadata rows. What the service reads from outside is an environment record
  \<open>upload_env\<close>: the two readings of \<open>datetime.now()\<close>, the outcome of the storage
  upload (\<open>None\<close> on success, the exception's message otherwise; Supabase itself
  refuses, for instance, a path that exists), the public URL (\<open>None\<close> when
  \<open>get_public_url\<close> raises) and the outcome of the table insert (an exception, or the
  returned rows, each with its \<open>id\<close> column when present; the column is taken to hold
  strings).

  Main facts: the upload fails exactly when the storage upload fails, the URL and the
  table insert being best effort (\<open>upload_file_best_effort\<close>); a successful upload
  stores the bytes under the timestamped path and returns metadata that describe them,
  its id being the path or the id the table returned (\<open>upload_file_stores\<close>).
\<close>

datatype insert_result = Insert_raised | Insert_rows "string option list"

record upload_env =
  stamp :: string
  storage_error :: "string option"
  url_result :: "string option"
  clock :: string
  insert_result :: insert_result

text \<open>The \<open>metadata\<close> dict; its key \<open>k\<close> is the field \<open>meta_k\<close>.\<close>

record upload_metadata =
  meta_id :: string
  meta_filename :: string
  meta_file_path :: string
  meta_file_url :: "string option"
  meta_upload_time :: string
  meta_file_size :: nat

record blob_state =
  bucket :: "(string \<times> bytes) list"
  uploads :: "upload_metadata list"

definition upload_file ::
  "upload_env \<Rightarrow> bytes \<Rightarrow> string \<Rightarrow> blob_state \<Rightarrow> string + upload_metadata \<times> blob_state" where
  "upload_file env file_content filename st =
     (let file_path = stamp env @ ''_'' @ filename
      in case storage_error env of
           Some e \<Rightarrow> Inl (''Error uploading file to Supabase storage: '' @ e)
         | None \<Rightarrow>
             (let st = st\<lparr>bucket := bucket st @ [(file_path, file_content)]\<rparr>;
                  metadata = upload_metadata.make file_path filename file_path (url_result env)
                               (clock env) (length file_content)
              in case insert_result env of
                   Insert_raised \<Rightarrow> Inr (metadata, st)
                 | Insert_rows rows \<Rightarrow>
                     Inr (if rows \<noteq> []
                          then metadata\<lparr>meta_id := (case hd rows of None \<Rightarrow> file_path | Some i \<Rightarrow> i)\<rparr>
                          else metadata,
                          st\<lparr>uploads := uploads st @ [metadata]\<rparr>)))"

declare upload_file_def [eval_simps]

subsection \<open>Properties of the upload\<close>

lemma upload_file_Inr:
  "upload_file env c f st = Inr (m, st') \<longleftrightarrow>
     storage_error env = None \<and>
     bucket st' = bucket st @ [(stamp env @ ''_'' @ f, c)] \<and>
     meta_filename m = f \<and> meta_file_path m = stamp env @ ''_'' @ f \<and>
     meta_file_url m = url_result env \<and> meta_upload_time m = clock env \<and> meta_file_size m = length c \<and>
     (case insert_result env of
        Insert_raised \<Rightarrow> meta_id m = meta_file_path m \<and> uploads st' = uploads st
      | Insert_rows rows \<Rightarrow>
          meta_id m = (case rows of [] \<Rightarrow> meta_file_path m | None # _ \<Rightarrow> meta_file_path m | Some i # _ \<Rightarrow> i) \<and>
          uploads st' = uploads st @ [m\<lparr>meta_id := meta_file_path m\<rparr>]) \<and>
     st' = st\<lparr>bucket := bucket st', uploads := uploads st'\<rparr>"
  by (cases "storage_error env"; cases "insert_result env")
     (auto simp: upload_file_def Let_def upload_metadata.defs split: list.splits option.splits)

lemma upload_file_bucket:
  "upload_file env c f st = Inr (m, st') \<Longrightarrow> bucket st' = bucket st @ [(stamp env @ ''_'' @ f, c)]"
  by (simp add: upload_file_Inr)

text \<open>
  C28: an upload fails exactly when the storage upload fails, with the wrapped storage
  message; the public URL and the metadata insert are best effort and never make it
  fail, as the design's blob-store contract says.
\<close>

theorem upload_file_best_effort:
  "(\<exists>m st'. upload_file env c f st = Inr (m, st')) \<longleftrightarrow> storage_error env = None"
  by (cases "storage_error env"; cases "insert_result env") (auto simp: upload_file_def Let_def)

text \<open>
  C29: a successful upload stores the bytes under the path made of the timestamp and the
  file name, and returns metadata naming that path, the file name and the size; its id is
  the path, or the id of the first row the metadata table returned.
\<close>

theorem upload_file_stores:
  "upload_file env c f st = Inr (m, st') \<Longrightarrow>
   bucket st' = bucket st @ [(stamp env @ ''_'' @ f, c)] \<and>
   meta_file_path m = stamp env @ ''_'' @ f \<and> meta_filename m = f \<and> meta_file_size m = length c \<and>
   meta_id m \<in> insert (meta_file_path m)
     (case insert_result env of Insert_rows (Some i # _) \<Rightarrow> {i} | _ \<Rightarrow> {})"
  by (auto simp: upload_file_Inr split: insert_result.splits list.splits option.splits)

theorem upload_file_stores_witness:
  "upload_file (upload_env.make ''20250101_120000'' None None ''t'' (Insert_rows [Some ''42''])) ''%PDF'' ''cv.pdf''
      (blob_state.make [] []) =
     Inr (upload_metadata.make ''42'' ''cv.pdf'' ''20250101_120000_cv.pdf'' None ''t'' 4,
          blob_state.make [(''20250101_120000_cv.pdf'', ''%PDF'')]
            [upload_metadata.make ''20250101_120000_cv.pdf'' ''cv.pdf'' ''20250101_120000_cv.pdf'' None ''t'' 4]) \<and>
   bucket (blob_state.make [(''20250101_120000_cv.pdf'', ''%PDF'')]
            [upload_metadata.make ''20250101_120000_cv.pdf'' ''cv.pdf'' ''20250101_120000_cv.pdf'' None ''t'' 4]) =
     [(''20250101_120000_cv.pdf'', ''%PDF'')] \<and>
   meta_id (upload_metadata.make ''42'' ''cv.pdf'' ''20250101_120000_cv.pdf'' None ''t'' 4) = ''42''"
proof -
  have up: "upload_file (upload_env.make ''20250101_120000'' None None ''t'' (Insert_rows [Some ''42''])) ''%PDF'' ''cv.pdf''
      (blob_state.make [] []) =
     Inr (upload_metadata.make ''42'' ''cv.pdf'' ''20250101_120000_cv.pdf'' None ''t'' 4,
          blob_state.make [(''20250101_120000_cv.pdf'', ''%PDF'')]
            [upload_metadata.make ''20250101_120000_cv.pdf'' ''cv.pdf'' ''20250101_120000_cv.pdf'' None ''t'' 4])"
    by (simp add: upload_file_def Let_def upload_env.defs upload_metadata.defs blob_state.defs)
  show ?thesis using up upload_file_stores[OF up] by (simp add: upload_metadata.defs blob_state.defs upload_env.defs)
qed

end
