(* ===== verification/QA.thy ===== *)
theory QA
  imports Candidate PyStr
begin

text \<open>
  The answer composer, \<open>QAService\<close> (src/app/services/qa_service.py).
  \<open>_format_candidate_context\<close> (lines 122--154) flattens a candidate into lines;
  \<open>answer_question\<close> (lines 20--72) asks a remote extractive QA model, falls back to
  a remote text generator (\<open>_fallback_answer\<close>, lines 74--101) and then to local
  keyword rules (\<open>_rule_based_answer\<close>, lines 103--120).

  The remote services are parameters: \<open>ask key question context\<close> is the POST to
  the QA model and \<open>generate key prompt\<close> the POST to the generator, each returning
  a transport failure (a raised \<open>requests\<close> exception, timeouts included) or a status
  code with the body as parsed by \<open>response.json()\<close> (\<open>None\<close> when parsing
  raises). JSON values are the datatype \<open>json\<close>; the answer of
  \<open>answer_question\<close> is a JSON value because the source returns
  \<open>result["answer"]\<close> as it comes, and \<open>JNull\<close> is the \<open>None\<close> it returns when
  a 200 reply has an unexpected shape.

  Main facts: when the QA reply is not a malformed 200, the answer is the first
  success of the three tiers (\<open>answer_question_chain\<close>); a malformed 200 reply
  yields \<open>None\<close> without trying the fallbacks (\<open>answer_question_malformed\<close>);
  the context has an "Education:" line exactly when the candidate has education
  entries, and likewise for experience (\<open>context_sections\<close>); the keyword rule
  for experience questions answers 0 for every candidate whose context does not contain
  the words "title" or "company", whatever its entries (\<open>experience_count_ignores_entries\<close>).
\<close>

datatype json = JNull | JBool bool | JNum int | JStr string | JList "json list"
  | JObj "(string \<times> json) list"

datatype http_result = Transport_error | Response nat "json option"

record qa_config =
  hf_api_key :: "string option"

text \<open>\<open>QAService.__init__\<close> (lines 8--18): the key comes from the environment.\<close>

definition init_qa :: "string option \<Rightarrow> qa_config" where
  "init_qa env_key = \<lparr>hf_api_key = env_key\<rparr>"

text \<open>Python truthiness of an \<open>Optional[str]\<close>: \<open>None\<close> and \<open>""\<close> are false.\<close>

definition truthy :: "string option \<Rightarrow> bool" where
  "truthy x \<longleftrightarrow> (case x of None \<Rightarrow> False | Some s \<Rightarrow> s \<noteq> [])"

definition or_na :: "string option \<Rightarrow> string" where
  "or_na x = (if truthy x then the x else ''N/A'')"

definition edu_context_line :: "education \<Rightarrow> string" where
  "edu_context_line edu =
     ''  - '' @ or_na (degree edu) @ '' from '' @ or_na (institution edu) @
     (if truthy (education.end_date edu) then '' (completed '' @ the (education.end_date edu) @ '')'' else [])"

definition exp_context_line :: "experience \<Rightarrow> string" where
  "exp_context_line exp =
     ''  - '' @ or_na (title exp) @ '' at '' @ or_na (company exp) @
     (if truthy (experience.start_date exp) \<and> truthy (experience.end_date exp)
      then '' ('' @ the (experience.start_date exp) @ '' - '' @ the (experience.end_date exp) @ '')''
      else [])"

text \<open>The list \<open>context_parts\<close> of \<open>_format_candidate_context\<close>.\<close>

definition context_parts :: "candidate \<Rightarrow> string list" where
  "context_parts candidate =
     (if candidate.introduction candidate \<noteq> []
      then [''Introduction: '' @ candidate.introduction candidate] else []) @
     (if candidate.education candidate \<noteq> []
      then ''Education:'' # map edu_context_line (candidate.education candidate) else []) @
     (if candidate.experience candidate \<noteq> []
      then ''Experience:'' # map exp_context_line (candidate.experience candidate) else []) @
     (if candidate.skills candidate \<noteq> []
      then [''Skills: '' @ str_join '', '' (take 20 (candidate.skills candidate))] else []) @
     (if candidate.certifications candidate \<noteq> []
      then [''Certifications: '' @ str_join '', '' (candidate.certifications candidate)] else [])"

definition format_candidate_context :: "candidate \<Rightarrow> string" where
  "format_candidate_context candidate = str_join ''\<newline>'' (context_parts candidate)"

text \<open>\<open>re.findall(r"20\d{2}", context)\<close>.\<close>

fun findall_20xx :: "string \<Rightarrow> string list" where
  "findall_20xx (a # b # c # d # cs) =
     (if a = CHR ''2'' \<and> b = CHR ''0'' \<and> is_digit c \<and> is_digit d
      then [a, b, c, d] # findall_20xx cs
      else findall_20xx (b # c # d # cs))"
| "findall_20xx _ = []"

text \<open>\<open>str(n)\<close> for a non-negative integer.\<close>

fun show_nat :: "nat \<Rightarrow> string" where
  "show_nat n =
     (if n < 10 then [char_of (48 + n)] else show_nat (n div 10) @ [char_of (48 + n mod 10)])"

definition skills_redirect :: string where
  "skills_redirect = ''The candidate's skills are listed in their profile. Please check the candidate details for the complete list.''"

definition generic_redirect :: string where
  "generic_redirect = ''Based on the candidate's profile, the information is available. Please refer to the candidate details for specific information.''"

text \<open>
  \<open>_rule_based_answer\<close>. A graduation question whose context has no year falls
  through to the next rules, as the source's nested \<open>if\<close> does.
\<close>

definition rule_based_answer :: "string \<Rightarrow> string \<Rightarrow> string" where
  "rule_based_answer question context =
     (let question_lower = str_lower question;
          dates = findall_20xx context
      in if (str_contains question_lower ''graduation'' \<or> str_contains question_lower ''graduate''
             \<or> str_contains question_lower ''degree'')
            \<and> (str_contains context ''end_date'' \<or> str_contains context ''202'') \<and> dates \<noteq> []
         then ''The candidate completed their graduation in '' @ last dates @ ''.''
         else if str_contains question_lower ''experience'' \<or> str_contains question_lower ''work''
         then (let n = str_count (str_lower context) ''title'';
                   exp_count = (if n \<noteq> 0 then n else str_count (str_lower context) ''company'')
               in ''The candidate has '' @ show_nat exp_count @ '' work experience entries.'')
         else if str_contains question_lower ''skills'' then skills_redirect
         else generic_redirect)"

text \<open>\<open>result.get(k, default)\<close> on a parsed JSON object, whose keys are distinct.\<close>

definition json_get :: "(string \<times> json) list \<Rightarrow> string \<Rightarrow> json \<Rightarrow> json" where
  "json_get kvs k dflt = (case map_of kvs k of None \<Rightarrow> dflt | Some v \<Rightarrow> v)"

text \<open>
  \<open>_fallback_answer\<close>: the generator's reply is used when it is a 200 whose body is
  a non-empty list starting with an object whose \<open>generated_text\<close> is a string that
  contains \<open>Answer:\<close>; every other reply, and every exception on the way
  (\<open>result[0].get\<close> on a non-object, \<open>in\<close> on a non-string), gives the
  rule-based answer.
\<close>

definition fallback_answer ::
  "(string option \<Rightarrow> string \<Rightarrow> http_result) \<Rightarrow> string option \<Rightarrow> string \<Rightarrow> string \<Rightarrow> string" where
  "fallback_answer generate key question context =
     (let prompt = ''Context: '' @ take 1000 context @ ''\<newline>\<newline>Question: '' @ question @ ''\<newline>\<newline>Answer:''
      in case generate key prompt of
           Transport_error \<Rightarrow> rule_based_answer question context
         | Response status body \<Rightarrow>
             if status = 200
             then (case body of
                     Some (JList (JObj kvs # _)) \<Rightarrow>
                       (case json_get kvs ''generated_text'' (JStr []) of
                          JStr generated_text \<Rightarrow>
                            if str_contains generated_text ''Answer:''
                            then take 200 (str_strip (last (str_split generated_text ''Answer:'')))
                            else rule_based_answer question context
                        | _ \<Rightarrow> rule_based_answer question context)
                   | _ \<Rightarrow> rule_based_answer question context)
             else rule_based_answer question context)"

text \<open>What the QA tier does with its reply.\<close>

datatype qa_outcome = Qa_answer json | Qa_fall_through | Qa_fallback

definition qa_outcome :: "http_result \<Rightarrow> qa_outcome" where
  "qa_outcome response =
     (case response of
        Transport_error \<Rightarrow> Qa_fallback
      | Response status body \<Rightarrow>
          if status = 200
          then (case body of
                  None \<Rightarrow> Qa_fallback
                | Some (JObj kvs) \<Rightarrow>
                    (case map_of kvs ''answer'' of
                       Some a \<Rightarrow> Qa_answer a
                     | None \<Rightarrow> Qa_fall_through)
                | Some (JList (JObj kvs # _)) \<Rightarrow>
                    Qa_answer (json_get kvs ''answer'' (JStr ''Unable to generate answer.''))
                | Some (JList (_ # _)) \<Rightarrow> Qa_fallback
                | Some _ \<Rightarrow> Qa_fall_through)
          else Qa_fallback)"

text \<open>
  \<open>answer_question\<close>: the prompt it builds first is never used; a 503 and any other
  non-200 status both go to the fallback.
\<close>

definition answer_question ::
  "qa_config \<Rightarrow> (string option \<Rightarrow> string \<Rightarrow> string \<Rightarrow> http_result)
   \<Rightarrow> (string option \<Rightarrow> string \<Rightarrow> http_result) \<Rightarrow> string \<Rightarrow> candidate \<Rightarrow> json" where
  "answer_question cfg ask generate question candidate =
     (let context = format_candidate_context candidate
      in case qa_outcome (ask (hf_api_key cfg) question context) of
           Qa_answer a \<Rightarrow> a
         | Qa_fall_through \<Rightarrow> JNull
         | Qa_fallback \<Rightarrow> JStr (fallback_answer generate (hf_api_key cfg) question context))"

subsection \<open>Specification\<close>

text \<open>
  The design's three-tier chain: the first tier that succeeds answers, the rule-based
  tier always succeeds.
\<close>

fun first_success :: "'a option list \<Rightarrow> 'a \<Rightarrow> 'a" where
  "first_success [] d = d"
| "first_success (Some x # _) d = x"
| "first_success (None # xs) d = first_success xs d"

definition qa_success :: "http_result \<Rightarrow> json option" where
  "qa_success r = (case qa_outcome r of Qa_answer a \<Rightarrow> Some a | _ \<Rightarrow> None)"

definition gen_success :: "http_result \<Rightarrow> string option" where
  "gen_success r =
     (case r of
        Transport_error \<Rightarrow> None
      | Response status body \<Rightarrow>
          if status = 200
          then (case body of
                  Some (JList (JObj kvs # _)) \<Rightarrow>
                    (case json_get kvs ''generated_text'' (JStr []) of
                       JStr g \<Rightarrow> if str_contains g ''Answer:''
                                 then Some (take 200 (str_strip (last (str_split g ''Answer:''))))
                                 else None
                     | _ \<Rightarrow> None)
                | _ \<Rightarrow> None)
          else None)"

definition gen_prompt :: "string \<Rightarrow> string \<Rightarrow> string" where
  "gen_prompt question context =
     ''Context: '' @ take 1000 context @ ''\<newline>\<newline>Question: '' @ question @ ''\<newline>\<newline>Answer:''"

declare truthy_def [eval_simps] or_na_def [eval_simps] edu_context_line_def [eval_simps]
  exp_context_line_def [eval_simps] context_parts_def [eval_simps]
  format_candidate_context_def [eval_simps] skills_redirect_def [eval_simps]
  generic_redirect_def [eval_simps] rule_based_answer_def [eval_simps] json_get_def [eval_simps]
  fallback_answer_def [eval_simps] qa_outcome_def [eval_simps] answer_question_def [eval_simps]
  init_qa_def [eval_simps]

declare show_nat.simps [simp del]

subsection \<open>The answer chain\<close>

lemma fallback_answer_gen:
  "fallback_answer generate key q ctx =
     (case gen_success (generate key (gen_prompt q ctx)) of None \<Rightarrow> rule_based_answer q ctx | Some a \<Rightarrow> a)"
  unfolding fallback_answer_def gen_success_def gen_prompt_def Let_def
  by (auto split: http_result.split option.split json.split list.split)

text \<open>
  C15: unless the QA model answers 200 with a body of an unexpected shape, the answer
  is the first tier that succeeds among the QA model, the text generator (the part of
  its reply after the last \<open>Answer:\<close>) and the keyword rules.
\<close>

theorem answer_question_chain:
  "qa_outcome (ask (hf_api_key cfg) q (format_candidate_context c)) \<noteq> Qa_fall_through \<Longrightarrow>
   answer_question cfg ask generate q c =
     first_success
       [qa_success (ask (hf_api_key cfg) q (format_candidate_context c)),
        map_option JStr (gen_success (generate (hf_api_key cfg) (gen_prompt q (format_candidate_context c))))]
       (JStr (rule_based_answer q (format_candidate_context c)))"
  by (auto simp: answer_question_def qa_success_def fallback_answer_gen Let_def
      split: qa_outcome.split option.split)

theorem answer_question_chain_witness:
  "answer_question (init_qa None) (\<lambda>_ _ _. Response 503 None)
     (\<lambda>_ _. Response 200 (Some (JList [JObj [(''generated_text'', JStr ''Answer: yes'')]])))
     ''Q'' (candidate.make ''c'' [] [] [] [] [] [] [])
   = first_success [None, Some (JStr ''yes'')] (JStr (rule_based_answer ''Q'' []))"
  using answer_question_chain[of "\<lambda>_ _ _. Response 503 None" "init_qa None" "''Q''"
      "candidate.make ''c'' [] [] [] [] [] [] []"
      "\<lambda>_ _. Response 200 (Some (JList [JObj [(''generated_text'', JStr ''Answer: yes'')]]))"]
  by (simp add: eval_simps candidate.make_def qa_success_def gen_success_def)

text \<open>
  C16: a 200 reply of the QA model that is an empty list, or an object without an
  \<open>answer\<close> key, makes \<open>answer_question\<close> return \<open>None\<close>: neither the
  generator nor the keyword rules are tried, against the design's promise that the
  chain always produces a string.
\<close>

theorem answer_question_malformed:
  "ask (hf_api_key cfg) q (format_candidate_context c) = Response 200 (Some j) \<Longrightarrow>
   j = JList [] \<or> (\<exists>kvs. j = JObj kvs \<and> map_of kvs ''answer'' = None) \<Longrightarrow>
   answer_question cfg ask generate q c = JNull"
  by (auto simp: answer_question_def qa_outcome_def)

theorem answer_question_malformed_witness:
  "answer_question (init_qa None) (\<lambda>_ _ _. Response 200 (Some (JList [])))
     (\<lambda>_ _. Transport_error) ''Q'' (candidate.make ''c'' [] [] [] [] [] [] []) = JNull"
  using answer_question_malformed[of "\<lambda>_ _ _. Response 200 (Some (JList []))" "init_qa None" "''Q''"
      "candidate.make ''c'' [] [] [] [] [] [] []" "JList []" "\<lambda>_ _. Transport_error"]
  by simp

subsection \<open>The context\<close>

text \<open>
  C17: the context has an \<open>Education:\<close> line exactly when the candidate has
  education entries, and an \<open>Experience:\<close> line exactly when it has experience
  entries.
\<close>

theorem context_sections:
  "(''Education:'' \<in> set (context_parts c) \<longleftrightarrow> candidate.education c \<noteq> []) \<and>
   (''Experience:'' \<in> set (context_parts c) \<longleftrightarrow> candidate.experience c \<noteq> [])"
  by (auto simp: context_parts_def edu_context_line_def exp_context_line_def)

subsection \<open>The keyword rules\<close>

text \<open>
  C18: the experience rule never counts experience entries: for any candidate whose
  context lines never contain the words \<open>title\<close> or \<open>company\<close> (ignoring
  case), however many experience entries it has, an experience question that is not
  about graduation is answered with 0 work experience entries. The context names an
  entry by its title and company values, never by those words.
\<close>

theorem experience_count_ignores_entries:
  "\<not> (str_contains (str_lower q) ''graduation'' \<or> str_contains (str_lower q) ''graduate'' \<or>
      str_contains (str_lower q) ''degree'') \<Longrightarrow>
   str_contains (str_lower q) ''experience'' \<Longrightarrow>
   list_all (\<lambda>p. \<not> sublist ''title'' (str_lower p) \<and> \<not> sublist ''company'' (str_lower p)) (context_parts c) \<Longrightarrow>
   rule_based_answer q (format_candidate_context c) = ''The candidate has 0 work experience entries.''"
proof -
  assume g: "\<not> (str_contains (str_lower q) ''graduation'' \<or> str_contains (str_lower q) ''graduate'' \<or>
      str_contains (str_lower q) ''degree'')"
    and e: "str_contains (str_lower q) ''experience''"
    and w: "list_all (\<lambda>p. \<not> sublist ''title'' (str_lower p) \<and> \<not> sublist ''company'' (str_lower p)) (context_parts c)"
  have none: "\<not> sublist k (str_lower (format_candidate_context c))"
    if "k = ''title'' \<or> k = ''company''" for k
  proof
    assume "sublist k (str_lower (format_candidate_context c))"
    then have "list_ex (sublist k) (map str_lower (context_parts c))"
      using that by (intro sublist_str_join_single)
         (auto simp: format_candidate_context_def str_lower_join_newline)
    then show False using w that by (auto simp: list_ex_iff list_all_iff)
  qed
  have "str_count (str_lower (format_candidate_context c)) ''title'' = 0"
    using none[of "''title''"] by (simp add: str_count_no_sublist)
  moreover have "str_count (str_lower (format_candidate_context c)) ''company'' = 0"
    using none[of "''company''"] by (simp add: str_count_no_sublist)
  ultimately show ?thesis using g e by (simp add: rule_based_answer_def Let_def show_nat.simps char_of_nat_eval)
qed

theorem experience_count_ignores_entries_witness:
  "rule_based_answer ''How much work experience?''
     (format_candidate_context (candidate.make ''c2'' []
        [experience.make (Some ''Engineer'') (Some ''Acme Inc.'') None None None None,
         experience.make (Some ''Developer'') (Some ''Initech'') None None None None] [] [] [] [] []))
   = ''The candidate has 0 work experience entries.''"
  by (rule experience_count_ignores_entries) (simp_all add: eval_simps candidate.defs experience.defs str_contains_iff_sublist[symmetric])

end
