(* ===== verification/Api.thy ===== *)
theory Api
  imports Store Blob QA
begin

text \<open>
  The HTTP API, src/app/main.py. The server's state is the state of its two stores: the
  blob store of \<open>supabase_service\<close> and the candidate collection of
  \<open>mongodb_service\<close> (record \<open>server\<close>). The extractors and the answer composer are
  stateless. Each endpoint is a handler from its inputs and the state to its response and
  the new state; a response is an \<open>HTTPException\<close> (\<open>Inl\<close>) or the endpoint's
  body (\<open>Inr\<close>). The libraries a handler calls are parameters gathered in
  \<open>services\<close>: the PDF and DOCX readers of \<open>extract_text\<close>, the QA
  configuration and the two remote inference calls.

  An exception caught and wrapped by a handler is kept as a value (\<open>exc\<close>): the
  \<open>HTTPException\<close>s the upload handler raises inside its own \<open>try\<close>, the blob
  store's exception, and the text extraction's. \<open>os.path.splitext\<close> is the
  POSIX one of the standard library, translated from its definition
  (\<open>genericpath._splitext\<close>). FastAPI's request parsing, CORS and the constant root
  endpoint are not modelled.

  \<open>serve\<close> dispatches one request, and \<open>reachable\<close> is the least set of
  states holding the empty one and closed under serving any request; the invariant
  \<open>server_ok\<close> (distinct candidate ids, every stored candidate extracted from a
  stored blob) holds in each of them.
\<close>

datatype exc = HTTPExc nat string | Storage_exc string | Text_exc text_error

datatype detail = Detail string | Wrapped string exc

datatype http_exception = HTTPException nat detail

record server =
  supabase_service :: blob_state
  mongodb_service :: collection

record services =
  pdf_pages :: "bytes \<Rightarrow> string list option"
  docx_paragraphs :: "bytes \<Rightarrow> string list option"
  qa_cfg :: qa_config
  qa_ask :: "string option \<Rightarrow> string \<Rightarrow> string \<Rightarrow> http_result"
  qa_generate :: "string option \<Rightarrow> string \<Rightarrow> http_result"

text \<open>
  \<open>os.path.splitext\<close>: the extension starts at the last dot of the last path
  component, provided a character other than a dot precedes it in that component.
\<close>

definition splitext :: "string \<Rightarrow> string \<times> string" where
  "splitext p =
     (let base = rev (takeWhile (\<lambda>c. c \<noteq> CHR ''/'') (rev p));
          stem = rev (dropWhile (\<lambda>c. c \<noteq> CHR ''.'') (rev base));
          dot_index = length p - length base + length stem - 1
      in if stem \<noteq> [] \<and> list_ex (\<lambda>c. c \<noteq> CHR ''.'') (butlast stem)
         then (take dot_index p, drop dot_index p)
         else (p, []))"

text \<open>The body of a successful upload (lines 63--71); \<open>message\<close> is a constant.\<close>

record upload_response =
  resp_candidate_id :: string
  resp_supabase_metadata :: upload_metadata
  resp_extracted_data :: candidate_doc

record ask_response =
  ask_candidate_id :: string
  ask_question_text :: string
  ask_answer :: json

definition processing_error :: "exc \<Rightarrow> http_exception" where
  "processing_error e = HTTPException 500 (Wrapped ''Error processing resume: '' e)"

text \<open>\<open>upload_resume\<close> (lines 37--74).\<close>

definition upload_resume ::
  "services \<Rightarrow> upload_env \<Rightarrow> string \<Rightarrow> bytes \<Rightarrow> server
   \<Rightarrow> (http_exception + upload_response) \<times> server" where
  "upload_resume svc env filename file_content srv =
     (if filename = [] then (Inl (processing_error (HTTPExc 400 ''No file provided'')), srv)
      else
        let file_ext = str_lower (snd (splitext filename))
        in if file_ext \<notin> set [''.pdf'', ''.docx'']
           then (Inl (processing_error
                        (HTTPExc 400 ''Invalid file type. Only PDF and DOCX files are allowed.'')), srv)
           else case upload_file env file_content filename (supabase_service srv) of
             Inl e \<Rightarrow> (Inl (processing_error (Storage_exc e)), srv)
           | Inr (supabase_metadata, blobs) \<Rightarrow>
               (case extract_text (pdf_pages svc) (docx_paragraphs svc) file_content file_ext of
                  Inl e \<Rightarrow> (Inl (processing_error (Text_exc e)), srv\<lparr>supabase_service := blobs\<rparr>)
                | Inr resume_text \<Rightarrow>
                    (let candidate_data = resume_data.extend (process_resume resume_text)
                                            (candidate_doc.fields (meta_id supabase_metadata));
                         (candidate_doc, coll) = save_candidate candidate_data (mongodb_service srv)
                     in (Inr (upload_response.make (candidate_doc.candidate_id candidate_doc)
                                supabase_metadata candidate_data),
                         srv\<lparr>supabase_service := blobs, mongodb_service := coll\<rparr>))))"

text \<open>\<open>list_candidates\<close> (lines 77--83).\<close>

definition list_candidates :: "server \<Rightarrow> candidate_summary list" where
  "list_candidates srv = get_all_candidates_summary (mongodb_service srv)"

definition not_found :: http_exception where
  "not_found = HTTPException 404 (Detail ''Candidate not found'')"

text \<open>\<open>get_candidate\<close> (lines 86--96): the 404 raised in the \<open>try\<close> is re-raised.\<close>

definition get_candidate :: "server \<Rightarrow> string \<Rightarrow> http_exception + candidate" where
  "get_candidate srv cid =
     (case get_candidate_by_id (mongodb_service srv) cid of
        None \<Rightarrow> Inl not_found
      | Some candidate \<Rightarrow> Inr candidate)"

text \<open>\<open>ask_question\<close> (lines 99--120).\<close>

definition ask_question :: "services \<Rightarrow> server \<Rightarrow> string \<Rightarrow> string \<Rightarrow> http_exception + ask_response" where
  "ask_question svc srv cid q =
     (case get_candidate_by_id (mongodb_service srv) cid of
        None \<Rightarrow> Inl not_found
      | Some candidate \<Rightarrow>
          Inr (ask_response.make cid q
                 (answer_question (qa_cfg svc) (qa_ask svc) (qa_generate svc) q candidate)))"

subsection \<open>Requests\<close>

datatype request = Upload upload_env string bytes | List_candidates | Get_candidate string
  | Ask string string

datatype response = Upload_resp "http_exception + upload_response"
  | List_resp "candidate_summary list" | Get_resp "http_exception + candidate"
  | Ask_resp "http_exception + ask_response"

fun serve :: "services \<Rightarrow> request \<Rightarrow> server \<Rightarrow> response \<times> server" where
  "serve svc (Upload env f c) srv = (case upload_resume svc env f c srv of (r, srv') \<Rightarrow> (Upload_resp r, srv'))"
| "serve svc List_candidates srv = (List_resp (list_candidates srv), srv)"
| "serve svc (Get_candidate cid) srv = (Get_resp (get_candidate srv cid), srv)"
| "serve svc (Ask cid q) srv = (Ask_resp (ask_question svc srv cid q), srv)"

definition init_server :: server where
  "init_server = server.make (blob_state.make [] []) []"

inductive reachable :: "services \<Rightarrow> server \<Rightarrow> bool" for svc where
  start: "reachable svc init_server"
| step: "reachable svc srv \<Longrightarrow> reachable svc (snd (serve svc r srv))"

subsection \<open>Specification\<close>

text \<open>
  A stored candidate comes from a stored blob: some blob's bytes, read as a PDF or as a
  DOCX file, give a text whose extraction is the candidate's data.
\<close>

definition from_blob :: "services \<Rightarrow> (string \<times> bytes) list \<Rightarrow> candidate_doc \<Rightarrow> bool" where
  "from_blob svc blobs d \<longleftrightarrow>
     list_ex (\<lambda>(path, b). list_ex (\<lambda>ext.
        case extract_text (pdf_pages svc) (docx_paragraphs svc) b ext of
          Inl _ \<Rightarrow> False
        | Inr t \<Rightarrow> resume_data.truncate d = process_resume t) [''.pdf'', ''.docx'']) blobs"

definition server_ok :: "services \<Rightarrow> server \<Rightarrow> bool" where
  "server_ok svc srv \<longleftrightarrow>
     store_ok (mongodb_service srv) \<and>
     list_all (from_blob svc (bucket (supabase_service srv))) (mongodb_service srv)"

text \<open>Inputs for the examples: a DOCX reader that always reads one paragraph, a PDF reader
  that always fails, every remote call failing, and an upload whose optional steps fail.\<close>

definition demo_services :: services where
  "demo_services = services.make (\<lambda>_. None) (\<lambda>_. Some [''Jane Doe'']) (init_qa None)
     (\<lambda>_ _ _. Transport_error) (\<lambda>_ _. Transport_error)"

definition demo_env :: upload_env where
  "demo_env = upload_env.make ''20250101_120000'' None None ''2025-01-01T12:00:00'' Insert_raised"

declare splitext_def [eval_simps] processing_error_def [eval_simps] upload_resume_def [eval_simps]
  list_candidates_def [eval_simps] not_found_def [eval_simps] get_candidate_def [eval_simps]
  ask_question_def [eval_simps] init_server_def [eval_simps] from_blob_def [eval_simps]
  server_ok_def [eval_simps]

subsection \<open>The state invariant\<close>

lemma from_blob_append: "list_all (from_blob svc bs) ds \<Longrightarrow> list_all (from_blob svc (bs @ bs2)) ds"
  by (induction ds) (auto simp: from_blob_def)

lemma upload_resume_effect:
  obtains (unchanged) "snd (upload_resume svc env f c srv) = srv"
  | (orphan) m blobs where "upload_file env c f (supabase_service srv) = Inr (m, blobs)"
      "snd (upload_resume svc env f c srv) = srv\<lparr>supabase_service := blobs\<rparr>"
  | (saved) m blobs ext t where "upload_file env c f (supabase_service srv) = Inr (m, blobs)"
      "ext \<in> set [''.pdf'', ''.docx'']"
      "extract_text (pdf_pages svc) (docx_paragraphs svc) c ext = Inr t"
      "snd (upload_resume svc env f c srv) =
         srv\<lparr>supabase_service := blobs,
             mongodb_service := update_one (resume_data.extend (process_resume t)
                (candidate_doc.fields (meta_id m))) (mongodb_service srv)\<rparr>"
proof -
  define ext where "ext = str_lower (snd (splitext f))"
  show thesis
  proof (cases "f = [] \<or> ext \<notin> set [''.pdf'', ''.docx'']")
    case True
    then show ?thesis using unchanged by (auto simp: upload_resume_def Let_def ext_def)
  next
    case ok: False
    show ?thesis
    proof (cases "upload_file env c f (supabase_service srv)")
      case (Inl e)
      then show ?thesis using ok unchanged by (simp add: upload_resume_def Let_def ext_def)
    next
      case (Inr r)
      obtain m blobs where up: "upload_file env c f (supabase_service srv) = Inr (m, blobs)"
        using Inr by (cases r) simp
      show ?thesis
      proof (cases "extract_text (pdf_pages svc) (docx_paragraphs svc) c ext")
        case (Inl e)
        then show ?thesis using ok up orphan[of m blobs] by (auto simp: upload_resume_def Let_def ext_def)
      next
        case (Inr t)
        then show ?thesis using ok up saved[of m blobs ext t]
          by (auto simp: upload_resume_def Let_def ext_def save_candidate_def)
      qed
    qed
  qed
qed

lemma upload_resume_ok:
  assumes "server_ok svc srv" shows "server_ok svc (snd (upload_resume svc env f c srv))"
proof (cases rule: upload_resume_effect[of svc env f c srv])
  case unchanged
  then show ?thesis using assms by simp
next
  case (orphan m blobs)
  then show ?thesis using assms
    by (simp add: server_ok_def upload_file_bucket from_blob_append)
next
  case (saved m blobs ext t)
  let ?d = "resume_data.extend (process_resume t) (candidate_doc.fields (meta_id m))"
  have new: "from_blob svc (bucket blobs) ?d"
    using saved upload_file_bucket[OF saved(1)]
    by (auto simp: from_blob_def resume_data.defs candidate_doc.defs)
  have old: "list_all (from_blob svc (bucket blobs)) (mongodb_service srv)"
    using assms by (simp add: server_ok_def upload_file_bucket[OF saved(1)] from_blob_append)
  have "list_all (from_blob svc (bucket blobs)) (update_one ?d (mongodb_service srv))"
    using new old update_one_set[of ?d "mongodb_service srv"] by (auto simp: list_all_iff)
  then show ?thesis using assms saved by (simp add: server_ok_def update_one_ok)
qed

lemma serve_ok: "server_ok svc srv \<Longrightarrow> server_ok svc (snd (serve svc r srv))"
  by (cases r) (simp_all add: upload_resume_ok case_prod_beta)

text \<open>
  C22: in every state the server can reach from the empty one, whatever requests it
  serves in whatever order, the stored candidate ids are distinct and every stored
  candidate is the extraction of a blob in the bucket: no candidate is stored without
  its file, and none from a text that was not extracted in full.
\<close>

theorem reachable_server_ok: "reachable svc srv \<Longrightarrow> server_ok svc srv"
proof (induction rule: reachable.induct)
  case start
  show ?case by (simp add: server_ok_def init_server_def store_ok_def server.defs blob_state.defs)
next
  case (step srv r)
  from step.IH show ?case by (rule serve_ok)
qed

theorem reachable_server_ok_witness:
  "server_ok demo_services (snd (serve demo_services (Upload demo_env ''cv.docx'' []) init_server))"
  by (rule reachable_server_ok) (rule reachable.step, rule reachable.start)

subsection \<open>Uploads\<close>

lemma upload_resume_accepted:
  "filename \<noteq> [] \<Longrightarrow> str_lower (snd (splitext filename)) = ext \<Longrightarrow> ext \<in> set [''.pdf'', ''.docx''] \<Longrightarrow>
   upload_resume svc env filename c srv =
     (case upload_file env c filename (supabase_service srv) of
        Inl e \<Rightarrow> (Inl (processing_error (Storage_exc e)), srv)
      | Inr (m, blobs) \<Rightarrow>
          (case extract_text (pdf_pages svc) (docx_paragraphs svc) c ext of
             Inl e \<Rightarrow> (Inl (processing_error (Text_exc e)), srv\<lparr>supabase_service := blobs\<rparr>)
           | Inr t \<Rightarrow>
               (let d = resume_data.extend (process_resume t) (candidate_doc.fields (meta_id m))
                in (Inr (upload_response.make (meta_id m) m d),
                    srv\<lparr>supabase_service := blobs, mongodb_service := update_one d (mongodb_service srv)\<rparr>))))"
  by (auto simp: upload_resume_def Let_def save_candidate_def candidate_doc.defs resume_data.defs
      split: sum.split prod.split)

text \<open>
  C23: a file name whose extension, lower-cased, is neither \<open>.pdf\<close> nor \<open>.docx\<close>
  is rejected before anything is stored or extracted, but with status 500: the
  \<open>HTTPException(400)\<close> raised inside the handler's \<open>try\<close> is caught by its
  \<open>except Exception\<close> and wrapped in a processing error.
\<close>

theorem upload_rejects_extension:
  "filename \<noteq> [] \<Longrightarrow> str_lower (snd (splitext filename)) \<notin> set [''.pdf'', ''.docx''] \<Longrightarrow>
   upload_resume svc env filename c srv =
     (Inl (HTTPException 500 (Wrapped ''Error processing resume: ''
             (HTTPExc 400 ''Invalid file type. Only PDF and DOCX files are allowed.''))), srv)"
  by (simp add: upload_resume_def processing_error_def)

theorem upload_rejects_extension_witness:
  "upload_resume demo_services demo_env ''cv.txt'' [] init_server =
     (Inl (HTTPException 500 (Wrapped ''Error processing resume: ''
             (HTTPExc 400 ''Invalid file type. Only PDF and DOCX files are allowed.''))), init_server)"
  by (rule upload_rejects_extension) (simp_all add: eval_simps)

text \<open>
  C24: an accepted upload whose blob is stored and whose text is extracted answers with
  the candidate built from the extraction under the blob's id, stores the bytes under the
  timestamped path, and the candidate is then returned by the get endpoint under that
  id.
\<close>

theorem upload_then_get:
  "filename \<noteq> [] \<Longrightarrow> str_lower (snd (splitext filename)) = ext \<Longrightarrow> ext \<in> set [''.pdf'', ''.docx''] \<Longrightarrow>
   upload_file env c filename (supabase_service srv) = Inr (m, blobs) \<Longrightarrow>
   extract_text (pdf_pages svc) (docx_paragraphs svc) c ext = Inr t \<Longrightarrow>
   fst (upload_resume svc env filename c srv) =
     Inr (upload_response.make (meta_id m) m
            (resume_data.extend (process_resume t) (candidate_doc.fields (meta_id m)))) \<and>
   get_candidate (snd (upload_resume svc env filename c srv)) (meta_id m) =
     Inr (to_candidate (resume_data.extend (process_resume t) (candidate_doc.fields (meta_id m)))) \<and>
   bucket (supabase_service (snd (upload_resume svc env filename c srv))) =
     bucket (supabase_service srv) @ [(stamp env @ ''_'' @ filename, c)]"
  by (simp add: upload_resume_accepted Let_def get_candidate_def get_candidate_by_id_update upload_file_bucket
      doc_id_def candidate_doc.defs resume_data.defs)

theorem upload_then_get_witness:
  "fst (upload_resume demo_services demo_env ''cv.docx'' [] init_server) =
     Inr (upload_response.make ''20250101_120000_cv.docx''
            (upload_metadata.make ''20250101_120000_cv.docx'' ''cv.docx'' ''20250101_120000_cv.docx'' None
               ''2025-01-01T12:00:00'' 0)
            (resume_data.extend (process_resume ''Jane Doe'') (candidate_doc.fields ''20250101_120000_cv.docx''))) \<and>
   get_candidate (snd (upload_resume demo_services demo_env ''cv.docx'' [] init_server)) ''20250101_120000_cv.docx'' =
     Inr (to_candidate (resume_data.extend (process_resume ''Jane Doe'') (candidate_doc.fields ''20250101_120000_cv.docx''))) \<and>
   bucket (supabase_service (snd (upload_resume demo_services demo_env ''cv.docx'' [] init_server))) =
     bucket (supabase_service init_server) @ [(stamp demo_env @ ''_'' @ ''cv.docx'', [])]"
  using upload_then_get[of "''cv.docx''" "''.docx''" demo_env "[]" init_server
      "upload_metadata.make ''20250101_120000_cv.docx'' ''cv.docx'' ''20250101_120000_cv.docx'' None ''2025-01-01T12:00:00'' 0"
      "blob_state.make [(''20250101_120000_cv.docx'', [])] []" demo_services "''Jane Doe''"]
  by (simp add: splitext_def str_lower_def lower_char_def is_upper_def upload_file_def demo_env_def init_server_def
      demo_services_def extract_text_def str_join.simps upload_metadata.defs blob_state.defs server.defs Let_def upload_env.defs services.defs)

text \<open>
  C25: when the text extraction fails after the blob was stored, the upload answers a
  processing error and keeps the new blob, which no candidate refers to: the store is
  left as it was and the bucket has one more object.
\<close>

theorem upload_orphan_blob:
  "filename \<noteq> [] \<Longrightarrow> str_lower (snd (splitext filename)) = ext \<Longrightarrow> ext \<in> set [''.pdf'', ''.docx''] \<Longrightarrow>
   upload_file env c filename (supabase_service srv) = Inr (m, blobs) \<Longrightarrow>
   extract_text (pdf_pages svc) (docx_paragraphs svc) c ext = Inl e \<Longrightarrow>
   upload_resume svc env filename c srv = (Inl (processing_error (Text_exc e)), srv\<lparr>supabase_service := blobs\<rparr>) \<and>
   bucket blobs = bucket (supabase_service srv) @ [(stamp env @ ''_'' @ filename, c)]"
  by (simp add: upload_resume_accepted upload_file_bucket)

theorem upload_orphan_blob_witness:
  "upload_resume demo_services demo_env ''cv.pdf'' ''%PDF'' init_server =
     (Inl (processing_error (Text_exc Reader_failed)),
      init_server\<lparr>supabase_service := blob_state.make [(''20250101_120000_cv.pdf'', ''%PDF'')] []\<rparr>) \<and>
   bucket (blob_state.make [(''20250101_120000_cv.pdf'', ''%PDF'')] []) =
     bucket (supabase_service init_server) @ [(stamp demo_env @ ''_'' @ ''cv.pdf'', ''%PDF'')]"
  using upload_orphan_blob[of "''cv.pdf''" "''.pdf''" demo_env "''%PDF''" init_server
      "upload_metadata.make ''20250101_120000_cv.pdf'' ''cv.pdf'' ''20250101_120000_cv.pdf'' None ''2025-01-01T12:00:00'' 4"
      "blob_state.make [(''20250101_120000_cv.pdf'', ''%PDF'')] []" demo_services Reader_failed]
  by (simp add: splitext_def str_lower_def lower_char_def is_upper_def upload_file_def demo_env_def init_server_def
      demo_services_def extract_text_def upload_metadata.defs blob_state.defs server.defs Let_def upload_env.defs services.defs)

subsection \<open>Lookups\<close>

text \<open>
  C26: the get and ask endpoints fail only with the 404 not-found error, exactly for the
  ids the store does not hold; otherwise they return the stored candidate, and the answer
  composer's answer about it.
\<close>

theorem lookup_endpoints:
  "get_candidate srv cid =
     (case abs_store (mongodb_service srv) cid of
        None \<Rightarrow> Inl (HTTPException 404 (Detail ''Candidate not found''))
      | Some d \<Rightarrow> Inr (to_candidate d)) \<and>
   ask_question svc srv cid q =
     (case abs_store (mongodb_service srv) cid of
        None \<Rightarrow> Inl (HTTPException 404 (Detail ''Candidate not found''))
      | Some d \<Rightarrow> Inr (ask_response.make cid q
                   (answer_question (qa_cfg svc) (qa_ask svc) (qa_generate svc) q (to_candidate d))))"
  by (simp add: get_candidate_def ask_question_def get_candidate_by_id_def find_one_abs not_found_def
      split: option.split)

end
