(* ===== verification/Spec2Isabelle.thy ===== *)
theory Spec2Isabelle
  imports Api
begin

text \<open>
  A verification development of the resume processing service of the repository
  (src/app). The service takes an uploaded PDF or DOCX resume, stores the file in a blob
  store (Supabase), extracts the text, cuts it into sections and extracts education,
  experience, skills, hobbies, certifications, projects and an introduction with
  regular expressions, stores the result as a candidate (MongoDB), lists and returns
  candidates, and answers questions about a candidate with a three-tier chain: a remote
  extractive QA model, a remote text generator, and local keyword rules.

  \<^bold>\<open>Theories, in import order.\<close>
  \<^item> \<open>Prelude\<close>: the \<open>eval_simps\<close> collection that lets \<open>simp\<close> run the model
    on concrete texts, first-writer-wins (\<open>first_writer\<close>), and the blank-line
    paragraph loop shared by three extractors (\<open>para_step\<close>, \<open>para_loop\<close>) with its
    closed form \<open>para_loop_blocks\<close>: the loop is a map over the blank-line separated
    blocks followed by a filter of the empty records.
  \<^item> \<open>PyStr\<close>: the Python \<open>str\<close> operations and the \<open>re\<close> searches the code
    uses (\<open>upper\<close>, \<open>lower\<close>, \<open>strip\<close>, \<open>find\<close>, \<open>split\<close>, \<open>join\<close>,
    \<open>count\<close>, \<open>re.search\<close> as the leftmost accepting position), with their
    specifications (\<open>str_find_least\<close>, \<open>str_join_split\<close>, \<open>str_split_join\<close>).
  \<^item> \<open>Segmenter\<close>: \<open>ResumeProcessor._extract_section\<close> and its header regex; the
    matcher is proved equal to the regex's language, the section is characterised and
    segmentation is idempotent (C1--C4).
  \<^item> \<open>Candidate\<close>: the pydantic models of src/app/models/candidate.py as records.
  \<^item> \<open>Education\<close>, \<open>Experience\<close>, \<open>Skills\<close>, \<open>Projects\<close>: the extractors
    \<open>_extract_education\<close>, \<open>_extract_experience\<close>, \<open>_extract_skills\<close>,
    \<open>_extract_hobbies\<close>, \<open>_extract_certifications\<close>, \<open>_extract_projects\<close> and
    \<open>_extract_introduction\<close> of src/app/services/resume_processor.py, each as its
    line handler and its loop; each is proved equal to a block-by-block specification
    and to keep its caps and field invariants (C5--C13, C27, C30).
  \<^item> \<open>Resume\<close>: \<open>extract_text\<close> with the PDF and DOCX readers as parameters, and
    \<open>process_resume\<close> (C14).
  \<^item> \<open>QA\<close>: \<open>QAService\<close> of src/app/services/qa_service.py, the context
    formatting, the keyword rules and the fallback chain, the remote calls being
    parameters that return a transport error or a status with a parsed JSON body
    (C15--C18).
  \<^item> \<open>Store\<close>: \<open>MongoDBService\<close> of src/app/services/mongodb_service.py, the
    collection as a list of documents in natural order, refining a finite map from ids
    to documents (C19--C21).
  \<^item> \<open>Blob\<close>: \<open>SupabaseService.upload_file\<close> of
    src/app/services/supabase_service.py, with the storage, URL and table calls as an
    environment record; the URL and the table insert are shown to be best effort
    (C28, C29).
  \<^item> \<open>Api\<close>: the endpoints of src/app/main.py as handlers over the state of the two
    stores, a request dispatcher \<open>serve\<close>, the reachable states as an inductive
    predicate and the invariant that holds in all of them; these theorems compose
    the extractors, both stores and the answer composer (C22--C26).

  \<^bold>\<open>Modelling choices.\<close> A Python \<open>str\<close> is a HOL \<open>string\<close>: the texts are
  taken to be ASCII plus the bullet U+2022, which is the character \<open>bullet\<close>;
  character classes and case mappings are Python's on that alphabet. Every loop of the
  code runs over a finite list and is a \<open>foldl\<close> or structural recursion; the
  searches that advance by a computed amount (\<open>str_split\<close>, \<open>str_count\<close>,
  \<open>findall_dates\<close>) are
  \<open>function\<close>s with a measure on the remaining length, so every definition is total
  and no fuel is needed. An exception is a value: \<open>text_error\<close> for the text
  extraction, \<open>exc\<close> and \<open>http_exception\<close> for the handlers, \<open>Qa_fallback\<close> for the
  QA tier. The extractors do not raise on any input, which their being total HOL
  functions shows.

  \<^bold>\<open>Not modelled.\<close> The NER pipeline of \<open>process_resume\<close> (its entities are never
  used, its errors are caught); the PDF and DOCX parsing libraries, the HTTP clients,
  the Supabase and MongoDB drivers, which are parameters or environment inputs; the
  failures of the database connection; FastAPI's request parsing, the CORS middleware
  and the constant root endpoint; the process start-up (\<open>__init__\<close> reading the
  environment, except the QA key); concurrency between requests, which share no state
  but the stores, whose operations are single calls.
\<close>

end
